theory Spec2Isabelle
  imports Main "HOL-Library.Sublist"
begin

section \<open>Strings\<close>

text \<open>
  A Python \<open>str\<close> is modelled as a \<open>string\<close>; a \<open>char\<close> stands for a code point
  below 256. \<open>NL\<close> is the line feed written \<^verbatim>\<open>\n\<close> in the sources. The check mark
  U+2713 at the head of three messages of the analyzers is outside that range; it is
  written \<open>CHECK\<close>, one character that is no bracket and no backslash, so that the
  tags of a message and their positions are those of the source.
\<close>

abbreviation NL :: char where
  "NL \<equiv> CHR 0x0A"

abbreviation CHECK :: char where
  "CHECK \<equiv> CHR 0x7F"

abbreviation QUOTE :: char where
  "QUOTE \<equiv> CHR 0x27"

text \<open>\<^verbatim>\<open>str(n)\<close> for a natural number.\<close>

fun show_nat :: "nat \<Rightarrow> string" where
  "show_nat n =
     (if n < 10 then [char_of (48 + n)]
      else show_nat (n div 10) @ [char_of (48 + n mod 10)])"

declare show_nat.simps [simp del]

text \<open>\<^verbatim>\<open>sep.join(xs)\<close>\<close>

fun join :: "string \<Rightarrow> string list \<Rightarrow> string" where
  "join sep [] = []"
| "join sep [x] = x"
| "join sep (x # y # ys) = x @ sep @ join sep (y # ys)"

text \<open>
  \<^verbatim>\<open>str.isspace\<close> on one character, for the code points below 256: tab, line feed,
  vertical tab, form feed, carriage return, the four separators 0x1C..0x1F, space,
  NEL (0x85) and the no-break space (0xA0).
\<close>

definition isspace :: "char \<Rightarrow> bool" where
  "isspace c = (of_char c \<in> {9, 10, 11, 12, 13, 28, 29, 30, 31, 32, 133, 160 :: nat})"

text \<open>\<^verbatim>\<open>s.strip()\<close>: leading and trailing whitespace removed.\<close>

definition strip :: "string \<Rightarrow> string" where
  "strip s = rev (dropWhile isspace (rev (dropWhile isspace s)))"

text \<open>
  \<^verbatim>\<open>s.lower()\<close> for the code points below 256: the ASCII capitals and the Latin-1
  capitals 0xC0..0xDE (the multiplication sign 0xD7 apart) move up by 32.
\<close>

definition lower_char :: "char \<Rightarrow> char" where
  "lower_char c =
     (let n = (of_char c :: nat) in
      if (65 \<le> n \<and> n \<le> 90) \<or> (192 \<le> n \<and> n \<le> 222 \<and> n \<noteq> 215)
      then char_of (n + 32) else c)"

definition lower :: "string \<Rightarrow> string" where
  "lower s = map lower_char s"

section \<open>The data model of the transcript analyzers\<close>

text \<open>
  \<^verbatim>\<open>meet-01.py\<close> (variant A) and \<^verbatim>\<open>meet-02.py\<close> (variant B) declare the same two
  models over different \<^verbatim>\<open>SubCategory\<close> enumerations, so the records take the
  enumeration as a type parameter.
\<close>

datatype SubCategory_A =
    ASSIGNED_A | PROPOSED_A | BLOCKED_A | COMPLETED_A
  | CONFIRMED_A | REJECTED_A | DEFERRED_A
  | ASKED_A | ANSWERED_A | UNRESOLVED_A | IMPLIED_A
  | NAMED_A | ROLES_A | TEAMS_A | MENTIONED_A
  | IMMEDIATE_A | SHORT_TERM_A | MEDIUM_TERM_A | LONG_TERM_A
  | MEETINGS_A | REVIEWS_A | DEPENDENCIES_A | DECISIONS_A
  | TECHNICAL_A | TIMELINE_A | STAKEHOLDER_A | RESOURCE_A

datatype SubCategory_B =
    PROPOSED_B | CONFIRMED_B | BLOCKED_B | COMPLETED_B
  | APPROVED_B | REJECTED_B | DEFERRED_B
  | ASKED_B | ANSWERED_B | UNRESOLVED_B
  | NAMED_B | ROLES_B | TEAMS_B
  | IMMEDIATE_B | SHORT_TERM_B | MEDIUM_TERM_B
  | MEETINGS_B | REVIEWS_B | DEPENDENCIES_B
  | TECHNICAL_B | TIMELINE_B | STAKEHOLDER_B

record 'c InsightItem =
  point :: string
  quote :: string
  speaker :: string
  subcategory :: 'c

record 'c MeetingInsight =
  tasks :: "'c InsightItem list"
  decisions :: "'c InsightItem list"
  questions :: "'c InsightItem list"
  attendees :: "'c InsightItem list"
  deadlines :: "'c InsightItem list"
  follow_ups :: "'c InsightItem list"
  risks :: "'c InsightItem list"

text \<open>\<^verbatim>\<open>MeetingInsight()\<close>: every field from its \<^verbatim>\<open>default_factory=list\<close>.\<close>

definition MeetingInsight_empty :: "'c MeetingInsight" where
  "MeetingInsight_empty =
     \<lparr>tasks = [], decisions = [], questions = [], attendees = [],
      deadlines = [], follow_ups = [], risks = []\<rparr>"

text \<open>
  The seven categories, in the order of \<^verbatim>\<open>model_fields\<close> (the order of declaration).
\<close>

datatype category = Tasks | Decisions | Questions | Attendees | Deadlines | Follow_ups | Risks

definition model_fields :: "category list" where
  "model_fields = [Tasks, Decisions, Questions, Attendees, Deadlines, Follow_ups, Risks]"

text \<open>\<^verbatim>\<open>getattr(insight, field)\<close> and \<^verbatim>\<open>setattr(insight, field, items)\<close>\<close>

fun getattr :: "'c MeetingInsight \<Rightarrow> category \<Rightarrow> 'c InsightItem list" where
  "getattr m Tasks = tasks m"
| "getattr m Decisions = decisions m"
| "getattr m Questions = questions m"
| "getattr m Attendees = attendees m"
| "getattr m Deadlines = deadlines m"
| "getattr m Follow_ups = follow_ups m"
| "getattr m Risks = risks m"

fun setattr :: "'c MeetingInsight \<Rightarrow> category \<Rightarrow> 'c InsightItem list \<Rightarrow> 'c MeetingInsight" where
  "setattr m Tasks xs = m\<lparr>tasks := xs\<rparr>"
| "setattr m Decisions xs = m\<lparr>decisions := xs\<rparr>"
| "setattr m Questions xs = m\<lparr>questions := xs\<rparr>"
| "setattr m Attendees xs = m\<lparr>attendees := xs\<rparr>"
| "setattr m Deadlines xs = m\<lparr>deadlines := xs\<rparr>"
| "setattr m Follow_ups xs = m\<lparr>follow_ups := xs\<rparr>"
| "setattr m Risks xs = m\<lparr>risks := xs\<rparr>"

text \<open>The name of a field, as the sources write it.\<close>

fun field_name :: "category \<Rightarrow> string" where
  "field_name Tasks = ''tasks''"
| "field_name Decisions = ''decisions''"
| "field_name Questions = ''questions''"
| "field_name Attendees = ''attendees''"
| "field_name Deadlines = ''deadlines''"
| "field_name Follow_ups = ''follow_ups''"
| "field_name Risks = ''risks''"

subsection \<open>\<^verbatim>\<open>MeetingInsight.to_markdown\<close> (the same text in both variants)\<close>

text \<open>
  The dictionary \<^verbatim>\<open>sections\<close>, in insertion order. \<open>fmt\<close> is what an f-string makes
  of a member of the variant's enumeration: \<open>format_SubCategory_A\<close> and
  \<open>format_SubCategory_B\<close> below.
\<close>

definition sections :: "'c MeetingInsight \<Rightarrow> (string \<times> 'c InsightItem list) list" where
  "sections m =
     [(''Tasks'', tasks m), (''Decisions'', decisions m), (''Questions'', questions m),
      (''Attendees'', attendees m), (''Deadlines'', deadlines m),
      (''Follow-ups'', follow_ups m), (''Risks'', risks m)]"

text \<open>The four lines appended for one item.\<close>

definition item_lines :: "('c \<Rightarrow> string) \<Rightarrow> 'c InsightItem \<Rightarrow> string list" where
  "item_lines fmt item =
     [''- **'' @ point item @ ''**'',
      ''  - Quote: \"'' @ quote item @ ''\"'',
      ''  - Speaker: '' @ speaker item,
      ''  - Category: '' @ fmt (subcategory item) @ [NL]]"

text \<open>The lines appended by one round of the loop over \<^verbatim>\<open>sections.items()\<close>.\<close>

definition section_lines :: "('c \<Rightarrow> string) \<Rightarrow> string \<times> 'c InsightItem list \<Rightarrow> string list" where
  "section_lines fmt s =
     (case s of (title, items) \<Rightarrow>
        [''## '' @ title]
        @ (if items = [] then [''No items found.'' @ [NL]]
           else concat (map (item_lines fmt) items))
        @ [''''])"

definition to_markdown :: "('c \<Rightarrow> string) \<Rightarrow> 'c MeetingInsight \<Rightarrow> string" where
  "to_markdown fmt m =
     join [NL] ([''# Meeting Analysis Results'' @ [NL]]
                @ concat (map (section_lines fmt) (sections m)))"

subsection \<open>The members of the two enumerations\<close>

text \<open>The value of each member.\<close>

fun SubCategory_A_value :: "SubCategory_A \<Rightarrow> string" where
  "SubCategory_A_value ASSIGNED_A = ''assigned''"
| "SubCategory_A_value PROPOSED_A = ''proposed''"
| "SubCategory_A_value BLOCKED_A = ''blocked''"
| "SubCategory_A_value COMPLETED_A = ''completed''"
| "SubCategory_A_value CONFIRMED_A = ''confirmed''"
| "SubCategory_A_value REJECTED_A = ''rejected''"
| "SubCategory_A_value DEFERRED_A = ''deferred''"
| "SubCategory_A_value ASKED_A = ''asked''"
| "SubCategory_A_value ANSWERED_A = ''answered''"
| "SubCategory_A_value UNRESOLVED_A = ''unresolved''"
| "SubCategory_A_value IMPLIED_A = ''implied''"
| "SubCategory_A_value NAMED_A = ''named''"
| "SubCategory_A_value ROLES_A = ''roles''"
| "SubCategory_A_value TEAMS_A = ''teams''"
| "SubCategory_A_value MENTIONED_A = ''mentioned''"
| "SubCategory_A_value IMMEDIATE_A = ''immediate''"
| "SubCategory_A_value SHORT_TERM_A = ''short_term''"
| "SubCategory_A_value MEDIUM_TERM_A = ''medium_term''"
| "SubCategory_A_value LONG_TERM_A = ''long_term''"
| "SubCategory_A_value MEETINGS_A = ''meetings''"
| "SubCategory_A_value REVIEWS_A = ''reviews''"
| "SubCategory_A_value DEPENDENCIES_A = ''dependencies''"
| "SubCategory_A_value DECISIONS_A = ''decisions''"
| "SubCategory_A_value TECHNICAL_A = ''technical''"
| "SubCategory_A_value TIMELINE_A = ''timeline''"
| "SubCategory_A_value STAKEHOLDER_A = ''stakeholder''"
| "SubCategory_A_value RESOURCE_A = ''resource''"

text \<open>The name of each member.\<close>

fun SubCategory_A_name :: "SubCategory_A \<Rightarrow> string" where
  "SubCategory_A_name ASSIGNED_A = ''ASSIGNED''"
| "SubCategory_A_name PROPOSED_A = ''PROPOSED''"
| "SubCategory_A_name BLOCKED_A = ''BLOCKED''"
| "SubCategory_A_name COMPLETED_A = ''COMPLETED''"
| "SubCategory_A_name CONFIRMED_A = ''CONFIRMED''"
| "SubCategory_A_name REJECTED_A = ''REJECTED''"
| "SubCategory_A_name DEFERRED_A = ''DEFERRED''"
| "SubCategory_A_name ASKED_A = ''ASKED''"
| "SubCategory_A_name ANSWERED_A = ''ANSWERED''"
| "SubCategory_A_name UNRESOLVED_A = ''UNRESOLVED''"
| "SubCategory_A_name IMPLIED_A = ''IMPLIED''"
| "SubCategory_A_name NAMED_A = ''NAMED''"
| "SubCategory_A_name ROLES_A = ''ROLES''"
| "SubCategory_A_name TEAMS_A = ''TEAMS''"
| "SubCategory_A_name MENTIONED_A = ''MENTIONED''"
| "SubCategory_A_name IMMEDIATE_A = ''IMMEDIATE''"
| "SubCategory_A_name SHORT_TERM_A = ''SHORT_TERM''"
| "SubCategory_A_name MEDIUM_TERM_A = ''MEDIUM_TERM''"
| "SubCategory_A_name LONG_TERM_A = ''LONG_TERM''"
| "SubCategory_A_name MEETINGS_A = ''MEETINGS''"
| "SubCategory_A_name REVIEWS_A = ''REVIEWS''"
| "SubCategory_A_name DEPENDENCIES_A = ''DEPENDENCIES''"
| "SubCategory_A_name DECISIONS_A = ''DECISIONS''"
| "SubCategory_A_name TECHNICAL_A = ''TECHNICAL''"
| "SubCategory_A_name TIMELINE_A = ''TIMELINE''"
| "SubCategory_A_name STAKEHOLDER_A = ''STAKEHOLDER''"
| "SubCategory_A_name RESOURCE_A = ''RESOURCE''"

fun SubCategory_B_value :: "SubCategory_B \<Rightarrow> string" where
  "SubCategory_B_value PROPOSED_B = ''proposed''"
| "SubCategory_B_value CONFIRMED_B = ''confirmed''"
| "SubCategory_B_value BLOCKED_B = ''blocked''"
| "SubCategory_B_value COMPLETED_B = ''completed''"
| "SubCategory_B_value APPROVED_B = ''approved''"
| "SubCategory_B_value REJECTED_B = ''rejected''"
| "SubCategory_B_value DEFERRED_B = ''deferred''"
| "SubCategory_B_value ASKED_B = ''asked''"
| "SubCategory_B_value ANSWERED_B = ''answered''"
| "SubCategory_B_value UNRESOLVED_B = ''unresolved''"
| "SubCategory_B_value NAMED_B = ''named''"
| "SubCategory_B_value ROLES_B = ''roles''"
| "SubCategory_B_value TEAMS_B = ''teams''"
| "SubCategory_B_value IMMEDIATE_B = ''immediate''"
| "SubCategory_B_value SHORT_TERM_B = ''short_term''"
| "SubCategory_B_value MEDIUM_TERM_B = ''medium_term''"
| "SubCategory_B_value MEETINGS_B = ''meetings''"
| "SubCategory_B_value REVIEWS_B = ''reviews''"
| "SubCategory_B_value DEPENDENCIES_B = ''dependencies''"
| "SubCategory_B_value TECHNICAL_B = ''technical''"
| "SubCategory_B_value TIMELINE_B = ''timeline''"
| "SubCategory_B_value STAKEHOLDER_B = ''stakeholder''"

definition SubCategory_B_members :: "SubCategory_B list" where
  "SubCategory_B_members =
     [PROPOSED_B, CONFIRMED_B, BLOCKED_B, COMPLETED_B, APPROVED_B, REJECTED_B, DEFERRED_B,
      ASKED_B, ANSWERED_B, UNRESOLVED_B, NAMED_B, ROLES_B, TEAMS_B,
      IMMEDIATE_B, SHORT_TERM_B, MEDIUM_TERM_B, MEETINGS_B, REVIEWS_B, DEPENDENCIES_B,
      TECHNICAL_B, TIMELINE_B, STAKEHOLDER_B]"

text \<open>\<^verbatim>\<open>SubCategory(s)\<close>: the member whose value is \<open>s\<close>, if there is one.\<close>

definition SubCategory_B_of :: "string \<Rightarrow> SubCategory_B option" where
  "SubCategory_B_of s = find (\<lambda>c. SubCategory_B_value c = s) SubCategory_B_members"


fun SubCategory_B_name :: "SubCategory_B \<Rightarrow> string" where
  "SubCategory_B_name PROPOSED_B = ''PROPOSED''"
| "SubCategory_B_name CONFIRMED_B = ''CONFIRMED''"
| "SubCategory_B_name BLOCKED_B = ''BLOCKED''"
| "SubCategory_B_name COMPLETED_B = ''COMPLETED''"
| "SubCategory_B_name APPROVED_B = ''APPROVED''"
| "SubCategory_B_name REJECTED_B = ''REJECTED''"
| "SubCategory_B_name DEFERRED_B = ''DEFERRED''"
| "SubCategory_B_name ASKED_B = ''ASKED''"
| "SubCategory_B_name ANSWERED_B = ''ANSWERED''"
| "SubCategory_B_name UNRESOLVED_B = ''UNRESOLVED''"
| "SubCategory_B_name NAMED_B = ''NAMED''"
| "SubCategory_B_name ROLES_B = ''ROLES''"
| "SubCategory_B_name TEAMS_B = ''TEAMS''"
| "SubCategory_B_name IMMEDIATE_B = ''IMMEDIATE''"
| "SubCategory_B_name SHORT_TERM_B = ''SHORT_TERM''"
| "SubCategory_B_name MEDIUM_TERM_B = ''MEDIUM_TERM''"
| "SubCategory_B_name MEETINGS_B = ''MEETINGS''"
| "SubCategory_B_name REVIEWS_B = ''REVIEWS''"
| "SubCategory_B_name DEPENDENCIES_B = ''DEPENDENCIES''"
| "SubCategory_B_name TECHNICAL_B = ''TECHNICAL''"
| "SubCategory_B_name TIMELINE_B = ''TIMELINE''"
| "SubCategory_B_name STAKEHOLDER_B = ''STAKEHOLDER''"

text \<open>
  \<^verbatim>\<open>f"{item.subcategory}"\<close> for a member of \<^verbatim>\<open>class SubCategory(str, Enum)\<close>: up to
  Python 3.10 \<^verbatim>\<open>format\<close> is that of \<^verbatim>\<open>str\<close> and gives the member's value; from
  Python 3.11 on it is that of \<^verbatim>\<open>Enum.__str__\<close> and gives the class name, a dot and the
  member's name. \<open>py311\<close> says which interpreter runs the code.
\<close>

definition format_SubCategory_A :: "bool \<Rightarrow> SubCategory_A \<Rightarrow> string" where
  "format_SubCategory_A py311 c =
     (if py311 then ''SubCategory.'' @ SubCategory_A_name c else SubCategory_A_value c)"

definition format_SubCategory_B :: "bool \<Rightarrow> SubCategory_B \<Rightarrow> string" where
  "format_SubCategory_B py311 c =
     (if py311 then ''SubCategory.'' @ SubCategory_B_name c else SubCategory_B_value c)"


section \<open>JSON values, exceptions, and the libraries around the code\<close>

text \<open>
  What \<^verbatim>\<open>json.loads\<close> returns: \<^verbatim>\<open>None\<close>, a \<^verbatim>\<open>bool\<close>, a number (the code never
  looks at its value), a \<^verbatim>\<open>str\<close>, a \<^verbatim>\<open>list\<close>, or a \<^verbatim>\<open>dict\<close> with its keys in
  insertion order.
\<close>

datatype json =
    JNull
  | JBool bool
  | JNum int
  | JStr string
  | JArr "json list"
  | JObj "(string \<times> json) list"

text \<open>
  Every exception the sources can meet is a value. \<open>BackendError\<close> is whatever the
  completion client or the agent raises (connection, HTTP status, and in variant A the
  validation failure that \<^verbatim>\<open>instructor\<close> reports) and \<open>JSONDecodeError\<close> what
  \<^verbatim>\<open>json.loads\<close> raises, each with its text. A \<open>TypeError\<close> of the interpreter
  records the operation that failed and its operand; a \<open>ValidationError\<close> of pydantic
  records the value that was validated. \<open>MarkupError\<close> is the exception of the
  console, with its text, and \<open>OSError\<close> that of a file operation.
\<close>

datatype failed_op = Contains | GetItem | SetItem | Iterate

datatype error =
    BackendError string
  | JSONDecodeError string
  | TypeError failed_op json
  | ValidationError json
  | EOFError
  | MarkupError string
  | OSError string

text \<open>
  What the code takes from the interpreter and the libraries without fixing it itself:
  \<^item> \<open>py311\<close>: the interpreter is Python 3.11 or later;
  \<^item> \<open>style_normalize\<close>: \<^verbatim>\<open>rich.style.Style.normalize\<close>, the normal form of a style
    name (on a text that is not a style: the text stripped, in lower case);
  \<^item> \<open>meta_error\<close>: for the parameters of a tag whose name starts with \<^verbatim>\<open>@\<close>, the
    text of the \<^verbatim>\<open>MarkupError\<close> that \<^verbatim>\<open>rich\<close> raises when they do not parse, if
    they do not;
  \<^item> \<open>exc_text\<close>: \<^verbatim>\<open>str(e)\<close> for a \<^verbatim>\<open>TypeError\<close> of the interpreter and a
    \<^verbatim>\<open>ValidationError\<close> of pydantic;
  \<^item> \<open>strftime_now\<close>: the reading \<^verbatim>\<open>datetime.now().strftime("%Y%m%d_%H%M%S")\<close> of
    the clock, by the number of readings taken before;
  \<^item> \<open>str_path\<close>: \<^verbatim>\<open>str\<close> of the \<^verbatim>\<open>pathlib\<close> path joined from the given parts;
  \<^item> \<open>write_text_error\<close>: what \<^verbatim>\<open>mkdir(exist_ok=True)\<close> of
    \<^verbatim>\<open>research_output\<close> and \<^verbatim>\<open>write_text\<close> of a file of the given name in it
    raise, if they raise (a name with a slash in it names a directory that the code
    never makes).
\<close>

record runtime =
  py311 :: bool
  style_normalize :: "string \<Rightarrow> string"
  meta_error :: "string \<Rightarrow> string option"
  exc_text :: "error \<Rightarrow> string"
  strftime_now :: "nat \<Rightarrow> string"
  str_path :: "string list \<Rightarrow> string"
  write_text_error :: "string \<Rightarrow> error option"

text \<open>\<^verbatim>\<open>str(e)\<close>, as the f-strings of the handlers interpolate it.\<close>

fun error_text :: "runtime \<Rightarrow> error \<Rightarrow> string" where
  "error_text rt (BackendError s) = s"
| "error_text rt (JSONDecodeError s) = s"
| "error_text rt (TypeError op v) = exc_text rt (TypeError op v)"
| "error_text rt (ValidationError v) = exc_text rt (ValidationError v)"
| "error_text rt EOFError = ''EOF when reading a line''"
| "error_text rt (MarkupError s) = s"
| "error_text rt (OSError s) = s"

section \<open>Console markup (\<^verbatim>\<open>rich.markup.render\<close>)\<close>

text \<open>
  \<^verbatim>\<open>console.print\<close> of a string renders it as markup first, and the renderer raises
  \<^verbatim>\<open>MarkupError\<close> on a closing tag that closes nothing. The sources print exception
  texts, paths, queries and answers inside their messages, so the renderer is part of
  what the code does.

  The tags of a text are the matches of \<^verbatim>\<open>(\\*)\[([a-z#/@][^[]*?)]\<close>, from left to
  right and without overlap: an opening bracket, one character of \<^verbatim>\<open>a-z#/@\<close>, then
  characters other than brackets up to a closing bracket. \<open>match_tag\<close> is given the
  text after an opening bracket and returns the text of the tag.
\<close>

definition tag_start :: "char \<Rightarrow> bool" where
  "tag_start c =
     ((97 \<le> (of_char c :: nat) \<and> (of_char c :: nat) \<le> 122)
      \<or> c = CHR ''#'' \<or> c = CHR ''/'' \<or> c = CHR ''@'')"

definition match_tag :: "string \<Rightarrow> string option" where
  "match_tag cs =
     (case cs of
        [] \<Rightarrow> None
      | c # rest \<Rightarrow>
          if tag_start c then
            (let body = takeWhile (\<lambda>x. x \<noteq> CHR ''['' \<and> x \<noteq> CHR '']'') rest
             in case drop (length body) rest of
                  [] \<Rightarrow> None
                | x # after \<Rightarrow> if x = CHR '']'' then Some (c # body) else None)
          else None)"

text \<open>
  \<^verbatim>\<open>_parse\<close>: the tags with their positions. \<open>i\<close> is the index of the next
  character and \<open>k\<close> the number of backslashes just before it. An odd number of
  backslashes before a tag escapes it; the position of a tag is the index of its
  opening bracket.
\<close>

fun scan_tags :: "nat \<Rightarrow> nat \<Rightarrow> string \<Rightarrow> (nat \<times> string) list" where
  "scan_tags i k [] = []"
| "scan_tags i k (c # cs) =
     (if c = CHR 0x5C then scan_tags (Suc i) (Suc k) cs
      else if c = CHR ''['' then
        (case match_tag cs of
           None \<Rightarrow> scan_tags (Suc i) 0 cs
         | Some t \<Rightarrow>
             (if even k then [(i, t)] else [])
             @ scan_tags (i + length t + 2) 0 (drop (Suc (length t)) cs))
      else scan_tags (Suc i) 0 cs)"

text \<open>\<^verbatim>\<open>tag_text.partition("=")\<close>: the name of a tag and its parameters.\<close>

definition parse_tag :: "string \<Rightarrow> string \<times> string option" where
  "parse_tag t =
     (takeWhile (\<lambda>x. x \<noteq> CHR ''='') t,
      if CHR ''='' \<in> set t then Some (tl (dropWhile (\<lambda>x. x \<noteq> CHR ''='') t)) else None)"

text \<open>\<^verbatim>\<open>Tag.markup\<close>\<close>

definition tag_markup :: "string \<times> string option \<Rightarrow> string" where
  "tag_markup tag =
     (case tag of
        (name, None) \<Rightarrow> ''['' @ name @ '']''
      | (name, Some parameters) \<Rightarrow> ''['' @ name @ ''='' @ parameters @ '']'')"

text \<open>\<^verbatim>\<open>pop_style\<close>: the open tag nearest to the top of the stack with the given name.\<close>

fun pop_style ::
  "string \<Rightarrow> (string \<times> string option) list
   \<Rightarrow> ((string \<times> string option) \<times> (string \<times> string option) list) option" where
  "pop_style style_name [] = None"
| "pop_style style_name (tag # stack) =
     (if fst tag = style_name then Some (tag, stack)
      else (case pop_style style_name stack of
              None \<Rightarrow> None
            | Some (found, stack') \<Rightarrow> Some (found, tag # stack')))"

text \<open>What closing the open tag \<open>open_tag\<close> raises: only a tag \<^verbatim>\<open>@...\<close> with parameters can.\<close>

definition close_error :: "runtime \<Rightarrow> string \<times> string option \<Rightarrow> string option" where
  "close_error rt open_tag =
     (case open_tag of
        (name, None) \<Rightarrow> None
      | (name, Some parameters) \<Rightarrow>
          if take 1 name = ''@'' \<and> parameters \<noteq> [] then meta_error rt parameters else None)"

text \<open>
  The loop of \<^verbatim>\<open>render\<close> over the tags, with the stack of open tags (the top first):
  the text of the \<^verbatim>\<open>MarkupError\<close> it raises, or \<open>None\<close> when it raises nothing.
\<close>

fun render_tags ::
  "runtime \<Rightarrow> (string \<times> string option) list \<Rightarrow> (nat \<times> string) list \<Rightarrow> string option" where
  "render_tags rt stack [] = None"
| "render_tags rt stack ((position, t) # ts) =
     (let tag = parse_tag t in
      if take 1 (fst tag) = ''/'' then
        (let style_name = strip (drop 1 (fst tag)) in
         if style_name \<noteq> [] then
           (case pop_style (style_normalize rt style_name) stack of
              None \<Rightarrow>
                Some (''closing tag '' @ [QUOTE] @ tag_markup tag @ [QUOTE] @ '' at position ''
                      @ show_nat position @ '' doesn't match any open tag'')
            | Some (open_tag, stack') \<Rightarrow>
                (case close_error rt open_tag of
                   Some m \<Rightarrow> Some m
                 | None \<Rightarrow> render_tags rt stack' ts))
         else
           (case stack of
              [] \<Rightarrow>
                Some (''closing tag '' @ [QUOTE] @ ''[/]'' @ [QUOTE] @ '' at position ''
                      @ show_nat position @ '' has nothing to close'')
            | open_tag # stack' \<Rightarrow>
                (case close_error rt open_tag of
                   Some m \<Rightarrow> Some m
                 | None \<Rightarrow> render_tags rt stack' ts)))
      else render_tags rt ((style_normalize rt (fst tag), snd tag) # stack) ts)"

definition markup_error :: "runtime \<Rightarrow> string \<Rightarrow> string option" where
  "markup_error rt markup = render_tags rt [] (scan_tags 0 0 markup)"

text \<open>\<^verbatim>\<open>console.print(markup)\<close>: the exception it raises, if any.\<close>

definition console_print :: "runtime \<Rightarrow> string \<Rightarrow> error option" where
  "console_print rt markup = map_option MarkupError (markup_error rt markup)"

section \<open>Effects: the console, the completion backend, the output directory\<close>

text \<open>
  A call of \<^verbatim>\<open>chat.completions.create\<close>. The model name, the temperature and the
  system prompt are constants of each call site, so a request is identified by its call
  site and the values interpolated into its user message: the transcript for the
  analysis, and the previous insights, the feedback and the transcript for the
  improvement.
\<close>

datatype 'c request =
    Analyze string
  | Improve "'c MeetingInsight" string string

text \<open>
  The world a run acts on: the lines the console will still deliver, the backend calls
  issued so far, the files written so far as (path, content), and the number of
  readings of the clock taken so far. A write under \<^verbatim>\<open>output/\<close> is taken to succeed:
  the directories are made with \<^verbatim>\<open>parents=True\<close> and the parts of the path are the
  stem of a file name, a timestamp and a stage. What the console shows is not recorded
  here (the research loop below records it). A message of fixed text has balanced tags
  and raises nothing, nor does one that interpolates the name of a field, nor
  \<^verbatim>\<open>print_json\<close>, which renders no markup; the messages that carry data are
  modelled by the exception they may raise.
\<close>

record 'c world =
  stdin :: "string list"
  calls :: "'c request list"
  files :: "(string \<times> string) list"
  clock_reads :: nat

text \<open>\<^verbatim>\<open>console.input(...)\<close>: the next line, or \<^verbatim>\<open>EOFError\<close> at the end of input.\<close>

definition console_input :: "'c world \<Rightarrow> (error + string) \<times> 'c world" where
  "console_input w =
     (case stdin w of
        [] \<Rightarrow> (Inl EOFError, w)
      | l # ls \<Rightarrow> (Inr l, w\<lparr>stdin := ls\<rparr>))"

text \<open>\<^verbatim>\<open>class OutputManager\<close>: the constructor reads the clock.\<close>

record OutputManager =
  transcript_name :: string
  timestamp :: string

definition OutputManager_init :: "runtime \<Rightarrow> string \<Rightarrow> 'c world \<Rightarrow> OutputManager \<times> 'c world" where
  "OutputManager_init rt name w =
     (\<lparr>transcript_name = name, timestamp = strftime_now rt (clock_reads w)\<rparr>,
      w\<lparr>clock_reads := Suc (clock_reads w)\<rparr>)"

text \<open>\<^verbatim>\<open>save_output(content, stage)\<close>: the path written, as the f-strings show it.\<close>

definition output_path :: "runtime \<Rightarrow> OutputManager \<Rightarrow> string \<Rightarrow> string" where
  "output_path rt om stage =
     str_path rt [''output'', transcript_name om, timestamp om, stage @ ''.md'']"

definition save_output ::
  "runtime \<Rightarrow> OutputManager \<Rightarrow> string \<Rightarrow> string \<Rightarrow> 'c world \<Rightarrow> string \<times> 'c world" where
  "save_output rt om content stage w =
     (output_path rt om stage, w\<lparr>files := files w @ [(output_path rt om stage, content)]\<rparr>)"

text \<open>
  The message of a handler, \<^verbatim>\<open>f"[red]{what}: {e}[/red]"\<close>, and what printing it
  raises.
\<close>

definition error_message :: "runtime \<Rightarrow> string \<Rightarrow> error \<Rightarrow> string" where
  "error_message rt what e = ''[red]'' @ what @ '': '' @ error_text rt e @ ''[/red]''"

definition print_error :: "runtime \<Rightarrow> string \<Rightarrow> error \<Rightarrow> error option" where
  "print_error rt what e = console_print rt (error_message rt what e)"

text \<open>
  \<^verbatim>\<open>progress.add_task(description, total=1)\<close> on the display that \<^verbatim>\<open>main\<close> makes,
  whose text column is \<^verbatim>\<open>[progress.description]{task.description}\<close>: the new row
  is rendered at once, as markup. (The later \<^verbatim>\<open>progress.update\<close> hides the row.)
\<close>

definition progress_add_task :: "runtime \<Rightarrow> string \<Rightarrow> error option" where
  "progress_add_task rt description = console_print rt (''[progress.description]'' @ description)"

text \<open>
  The completion backend is outside the repository: its reply is a function of the calls
  issued so far, the current one last (\<open>backend_A\<close> and \<open>backend_B\<close> below). The type
  of a variant's \<^verbatim>\<open>improve_insights\<close>, with its backend fixed:
\<close>

type_synonym 'c improve =
  "'c MeetingInsight \<Rightarrow> string \<Rightarrow> string \<Rightarrow> 'c world \<Rightarrow> (error + 'c MeetingInsight) \<times> 'c world"

section \<open>The review flow (the same in both variants)\<close>

text \<open>
  The four handlers below have the same text in \<^verbatim>\<open>meet-01.py\<close> and \<^verbatim>\<open>meet-02.py\<close>
  but for one message. They differ in what they call: \<open>improve\<close> is the variant's
  \<^verbatim>\<open>improve_insights\<close>, \<open>proposed\<close> its \<^verbatim>\<open>SubCategory.PROPOSED\<close>, \<open>fmt\<close> the
  rendering of its enumeration, and \<open>saved\<close> its message for the path of the iteration.
\<close>

text \<open>The message \<^verbatim>\<open>Iteration saved to\<close> of \<^verbatim>\<open>meet-01.py\<close> and of \<^verbatim>\<open>meet-02.py\<close>.\<close>

definition iteration_saved_A :: "string \<Rightarrow> string" where
  "iteration_saved_A path =
     ''[green]'' @ [CHECK] @ '' Iteration saved to:[/green] [bold blue]'' @ path @ ''[/bold blue]''"

definition iteration_saved_B :: "string \<Rightarrow> string" where
  "iteration_saved_B path =
     ''[green]'' @ [CHECK] @ ''[/green] Iteration saved to: [bold blue]'' @ path @ ''[/bold blue]''"

text \<open>
  The handler of \<^verbatim>\<open>_handle_iteration\<close>: it prints the exception and returns the
  insight it was given, unless the print raises.
\<close>

definition iteration_failed ::
  "runtime \<Rightarrow> 'c MeetingInsight \<Rightarrow> error \<Rightarrow> 'c world \<Rightarrow> (error + 'c MeetingInsight) \<times> 'c world" where
  "iteration_failed rt insight e w =
     (case print_error rt ''Error during iteration'' e of
        None \<Rightarrow> (Inr insight, w)
      | Some e' \<Rightarrow> (Inl e', w))"

text \<open>
  \<^verbatim>\<open>_handle_iteration\<close>: the \<^verbatim>\<open>try\<close> block calls \<^verbatim>\<open>improve_insights\<close>, makes an
  \<^verbatim>\<open>OutputManager\<close>, saves the new insight and prints the path; every exception in it
  goes to the handler.
\<close>

definition handle_iteration ::
  "runtime \<Rightarrow> ('c \<Rightarrow> string) \<Rightarrow> (string \<Rightarrow> string) \<Rightarrow> 'c improve \<Rightarrow> 'c MeetingInsight
   \<Rightarrow> string \<Rightarrow> string \<Rightarrow> string \<Rightarrow> 'c world \<Rightarrow> (error + 'c MeetingInsight) \<times> 'c world" where
  "handle_iteration rt fmt saved improve insight feedback transcript name w =
     (case improve insight feedback transcript w of
        (Inl e, w1) \<Rightarrow> iteration_failed rt insight e w1
      | (Inr new_insight, w1) \<Rightarrow>
          (case OutputManager_init rt name w1 of
             (output_manager, w2) \<Rightarrow>
               (case save_output rt output_manager (to_markdown fmt new_insight) ''3_iteration'' w2 of
                  (iteration_path, w3) \<Rightarrow>
                    (case console_print rt (saved iteration_path) of
                       None \<Rightarrow> (Inr new_insight, w3)
                     | Some e \<Rightarrow> iteration_failed rt insight e w3))))"

text \<open>
  The \<^verbatim>\<open>while True\<close> loop of \<^verbatim>\<open>_handle_manual_entry\<close> for one field, on the lines the
  console delivers: it returns the items and the lines left.
\<close>

fun manual_items ::
  "'c \<Rightarrow> 'c InsightItem list \<Rightarrow> string list \<Rightarrow> (error + 'c InsightItem list) \<times> string list" where
  "manual_items proposed items [] = (Inl EOFError, [])"
| "manual_items proposed items (item # rest) =
     (if item = [] then (Inr items, rest)
      else manual_items proposed
             (items @ [\<lparr>point = item, quote = ''Manually entered'',
                        speaker = ''Manual Entry'', subcategory = proposed\<rparr>])
             rest)"

text \<open>The \<^verbatim>\<open>for field in insight.model_fields\<close> loop around it.\<close>

fun manual_fields ::
  "'c \<Rightarrow> category list \<Rightarrow> 'c MeetingInsight \<Rightarrow> 'c world \<Rightarrow> (error + 'c MeetingInsight) \<times> 'c world" where
  "manual_fields proposed [] insight w = (Inr insight, w)"
| "manual_fields proposed (field # more_fields) insight w =
     (case manual_items proposed [] (stdin w) of
        (Inl e, rest) \<Rightarrow> (Inl e, w\<lparr>stdin := rest\<rparr>)
      | (Inr items, rest) \<Rightarrow>
          manual_fields proposed more_fields (setattr insight field items) (w\<lparr>stdin := rest\<rparr>))"

definition handle_manual_entry :: "'c \<Rightarrow> 'c world \<Rightarrow> (error + 'c MeetingInsight) \<times> 'c world" where
  "handle_manual_entry proposed w = manual_fields proposed model_fields MeetingInsight_empty w"

text \<open>\<^verbatim>\<open>_handle_empty_insights\<close>\<close>

definition handle_empty_insights ::
  "runtime \<Rightarrow> ('c \<Rightarrow> string) \<Rightarrow> (string \<Rightarrow> string) \<Rightarrow> 'c improve \<Rightarrow> 'c \<Rightarrow> 'c MeetingInsight
   \<Rightarrow> string \<Rightarrow> string \<Rightarrow> 'c world \<Rightarrow> (error + 'c MeetingInsight) \<times> 'c world" where
  "handle_empty_insights rt fmt saved improve proposed insight transcript name w =
     (case console_input w of
        (Inl e, w1) \<Rightarrow> (Inl e, w1)
      | (Inr choice, w1) \<Rightarrow>
          if choice = ''1'' then
            (case console_input w1 of
               (Inl e, w2) \<Rightarrow> (Inl e, w2)
             | (Inr feedback, w2) \<Rightarrow>
                 handle_iteration rt fmt saved improve insight feedback transcript name w2)
          else if choice = ''2'' then handle_manual_entry proposed w1
          else (Inr insight, w1))"

text \<open>\<^verbatim>\<open>_handle_human_review\<close>\<close>

definition handle_human_review ::
  "runtime \<Rightarrow> ('c \<Rightarrow> string) \<Rightarrow> (string \<Rightarrow> string) \<Rightarrow> 'c improve \<Rightarrow> 'c \<Rightarrow> 'c MeetingInsight
   \<Rightarrow> string \<Rightarrow> string \<Rightarrow> 'c world \<Rightarrow> (error + 'c MeetingInsight) \<times> 'c world" where
  "handle_human_review rt fmt saved improve proposed insight transcript name w =
     (if list_all (\<lambda>field. length (getattr insight field) = 0) model_fields
      then handle_empty_insights rt fmt saved improve proposed insight transcript name w
      else
        (case console_input w of
           (Inl e, w1) \<Rightarrow> (Inl e, w1)
         | (Inr approval, w1) \<Rightarrow>
             if lower approval = ''y'' then (Inr insight, w1)
             else
               (case console_input w1 of
                  (Inl e, w2) \<Rightarrow> (Inl e, w2)
                | (Inr feedback, w2) \<Rightarrow>
                    handle_iteration rt fmt saved improve insight feedback transcript name w2)))"

section \<open>Variant A (\<^verbatim>\<open>meet-01.py\<close>)\<close>

text \<open>
  The client is wrapped by \<^verbatim>\<open>instructor\<close> with \<^verbatim>\<open>response_model=MeetingInsight\<close>: a
  call returns a validated \<^verbatim>\<open>MeetingInsight\<close> or raises.
\<close>

type_synonym backend_A =
  "SubCategory_A request list \<Rightarrow> error + SubCategory_A MeetingInsight"

text \<open>
  A handler that prints the exception and raises it again: what leaves it is the
  exception, or the one the print raised.
\<close>

definition print_and_raise :: "runtime \<Rightarrow> string \<Rightarrow> error \<Rightarrow> error" where
  "print_and_raise rt what e = (case print_error rt what e of None \<Rightarrow> e | Some e' \<Rightarrow> e')"

text \<open>\<^verbatim>\<open>analyze_transcript\<close>\<close>

definition analyze_transcript_A ::
  "runtime \<Rightarrow> backend_A \<Rightarrow> string \<Rightarrow> SubCategory_A world
   \<Rightarrow> (error + SubCategory_A MeetingInsight) \<times> SubCategory_A world" where
  "analyze_transcript_A rt backend transcript w =
     (let w1 = w\<lparr>calls := calls w @ [Analyze transcript]\<rparr>
      in case backend (calls w1) of
           Inr insight \<Rightarrow> (Inr insight, w1)
         | Inl e \<Rightarrow> (Inl (print_and_raise rt ''Error in analyze_transcript'' e), w1))"

text \<open>\<^verbatim>\<open>improve_insights\<close>\<close>

definition improve_insights_A :: "runtime \<Rightarrow> backend_A \<Rightarrow> SubCategory_A improve" where
  "improve_insights_A rt backend previous feedback transcript w =
     (let w1 = w\<lparr>calls := calls w @ [Improve previous feedback transcript]\<rparr>
      in case backend (calls w1) of
           Inr new_insight \<Rightarrow> (Inr new_insight, w1)
         | Inl e \<Rightarrow> (Inl (print_and_raise rt ''Error in improve_insights'' e), w1))"

text \<open>The two messages of \<^verbatim>\<open>process_transcript\<close> that show a path.\<close>

definition analysis_saved :: "string \<Rightarrow> string" where
  "analysis_saved path =
     ''[green]'' @ [CHECK] @ '' Analysis saved to:[/green] [bold blue]'' @ path @ ''[/bold blue]''"

definition final_saved :: "string \<Rightarrow> string" where
  "final_saved path =
     ''[green]'' @ [CHECK] @ '' Final output saved to:[/green] [bold blue]'' @ path @ ''[/bold blue]''"

text \<open>
  \<^verbatim>\<open>process_transcript\<close>: \<open>name\<close> is the stem of the path and \<open>text\<close> what
  \<^verbatim>\<open>read_text()\<close> returns. Nothing here catches an exception.
\<close>

definition process_transcript_A ::
  "runtime \<Rightarrow> backend_A \<Rightarrow> bool \<Rightarrow> string \<Rightarrow> string \<Rightarrow> SubCategory_A world
   \<Rightarrow> (error + SubCategory_A MeetingInsight) \<times> SubCategory_A world" where
  "process_transcript_A rt backend auto_mode name text w =
     (case OutputManager_init rt name w of
        (output_manager, w0) \<Rightarrow>
          (let transcript = strip text; fmt = format_SubCategory_A (py311 rt) in
           if transcript = [] then (Inr MeetingInsight_empty, w0)
           else
             (case analyze_transcript_A rt backend transcript w0 of
                (Inl e, w1) \<Rightarrow> (Inl e, w1)
              | (Inr insight, w1) \<Rightarrow>
                  (case save_output rt output_manager (to_markdown fmt insight) ''1_analysis'' w1 of
                     (analysis_path, w2) \<Rightarrow>
                       (case console_print rt (analysis_saved analysis_path) of
                          Some e \<Rightarrow> (Inl e, w2)
                        | None \<Rightarrow>
                            (case (if \<not> auto_mode
                                   then handle_human_review rt fmt iteration_saved_A
                                          (improve_insights_A rt backend) PROPOSED_A
                                          insight transcript name w2
                                   else (Inr insight, w2)) of
                               (Inl e, w3) \<Rightarrow> (Inl e, w3)
                             | (Inr insight', w3) \<Rightarrow>
                                 (case save_output rt output_manager (to_markdown fmt insight')
                                         ''2_final_output'' w3 of
                                    (final_path, w4) \<Rightarrow>
                                      (case console_print rt (final_saved final_path) of
                                         Some e \<Rightarrow> (Inl e, w4)
                                       | None \<Rightarrow> (Inr insight', w4)))))))))"

section \<open>Variant B (\<^verbatim>\<open>meet-02.py\<close>)\<close>

text \<open>\<^verbatim>\<open>d[k] = v\<close> on a \<^verbatim>\<open>dict\<close>: the value is replaced, or the key is added last.\<close>

fun dict_set :: "string \<Rightarrow> json \<Rightarrow> (string \<times> json) list \<Rightarrow> (string \<times> json) list" where
  "dict_set k v [] = [(k, v)]"
| "dict_set k v ((k', v') # kvs) =
     (if k' = k then (k, v) # kvs else (k', v') # dict_set k v kvs)"

text \<open>A loop body that may raise, run over a list: it stops at the first exception.\<close>

fun mapM :: "('a \<Rightarrow> error + 'b) \<Rightarrow> 'a list \<Rightarrow> error + 'b list" where
  "mapM f [] = Inr []"
| "mapM f (x # xs) =
     (case f x of
        Inl e \<Rightarrow> Inl e
      | Inr y \<Rightarrow> (case mapM f xs of Inl e \<Rightarrow> Inl e | Inr ys \<Rightarrow> Inr (y # ys)))"

subsection \<open>The default sub-tags of \<^verbatim>\<open>analyze_transcript\<close>\<close>

text \<open>The dictionary literal indexed by \<^verbatim>\<open>category\<close>.\<close>

fun default_subcategory :: "category \<Rightarrow> string" where
  "default_subcategory Tasks = ''proposed''"
| "default_subcategory Decisions = ''approved''"
| "default_subcategory Questions = ''asked''"
| "default_subcategory Attendees = ''named''"
| "default_subcategory Deadlines = ''immediate''"
| "default_subcategory Follow_ups = ''meetings''"
| "default_subcategory Risks = ''technical''"

text \<open>
  The body of the inner loop on one \<open>item\<close>:
  \<^verbatim>\<open>if 'subcategory' not in item: item['subcategory'] = d\<close>.
  On a \<^verbatim>\<open>dict\<close> the test looks for the key; on a \<^verbatim>\<open>list\<close> for an element equal to the
  string, on a \<^verbatim>\<open>str\<close> for a substring, and there the assignment raises
  \<^verbatim>\<open>TypeError\<close>; on \<^verbatim>\<open>None\<close>, a \<^verbatim>\<open>bool\<close> or a number the test itself raises.
\<close>

fun set_default :: "string \<Rightarrow> json \<Rightarrow> error + json" where
  "set_default d (JObj kvs) =
     (if ''subcategory'' \<notin> set (map fst kvs)
      then Inr (JObj (dict_set ''subcategory'' (JStr d) kvs))
      else Inr (JObj kvs))"
| "set_default d (JArr xs) =
     (if JStr ''subcategory'' \<notin> set xs then Inl (TypeError SetItem (JArr xs)) else Inr (JArr xs))"
| "set_default d (JStr s) =
     (if \<not> sublist ''subcategory'' s then Inl (TypeError SetItem (JStr s)) else Inr (JStr s))"
| "set_default d JNull = Inl (TypeError Contains JNull)"
| "set_default d (JBool b) = Inl (TypeError Contains (JBool b))"
| "set_default d (JNum n) = Inl (TypeError Contains (JNum n))"

text \<open>
  \<^verbatim>\<open>for item in result[category]\<close>: a \<^verbatim>\<open>list\<close> yields its elements, which the body
  changes in place; a \<^verbatim>\<open>dict\<close> yields its keys and a \<^verbatim>\<open>str\<close> its characters, which
  the body cannot change; anything else is not iterable. The result is the value
  \<^verbatim>\<open>result[category]\<close> holds after the loop.
\<close>

fun default_items :: "string \<Rightarrow> json \<Rightarrow> error + json" where
  "default_items d (JArr xs) =
     (case mapM (set_default d) xs of Inl e \<Rightarrow> Inl e | Inr ys \<Rightarrow> Inr (JArr ys))"
| "default_items d (JObj kvs) =
     (case mapM (set_default d) (map (\<lambda>kv. JStr (fst kv)) kvs) of
        Inl e \<Rightarrow> Inl e | Inr ys \<Rightarrow> Inr (JObj kvs))"
| "default_items d (JStr s) =
     (case mapM (set_default d) (map (\<lambda>c. JStr [c]) s) of
        Inl e \<Rightarrow> Inl e | Inr ys \<Rightarrow> Inr (JStr s))"
| "default_items d JNull = Inl (TypeError Iterate JNull)"
| "default_items d (JBool b) = Inl (TypeError Iterate (JBool b))"
| "default_items d (JNum n) = Inl (TypeError Iterate (JNum n))"

text \<open>
  \<^verbatim>\<open>result[category]\<close> after \<^verbatim>\<open>if category not in result: result[category] = []\<close>:
  the value found under the key, or the empty list just stored.
\<close>

definition entry :: "(string \<times> json) list \<Rightarrow> category \<Rightarrow> json" where
  "entry result category =
     (case map_of result (field_name category) of None \<Rightarrow> JArr [] | Some v \<Rightarrow> v)"

text \<open>The outer loop \<^verbatim>\<open>for category in [...]\<close> on a \<^verbatim>\<open>dict\<close>.\<close>

fun add_defaults :: "category list \<Rightarrow> (string \<times> json) list \<Rightarrow> error + (string \<times> json) list" where
  "add_defaults [] result = Inr result"
| "add_defaults (category # others) result =
     (let result1 = (if field_name category \<notin> set (map fst result)
                     then dict_set (field_name category) (JArr []) result
                     else result)
      in case default_items (default_subcategory category) (entry result category) of
           Inl e \<Rightarrow> Inl e
         | Inr v' \<Rightarrow> add_defaults others (dict_set (field_name category) v' result1))"

text \<open>
  The same loop on whatever \<^verbatim>\<open>json.loads\<close> returned. On a \<^verbatim>\<open>list\<close> or a \<^verbatim>\<open>str\<close>
  the first round, for \<^verbatim>\<open>tasks\<close>, raises \<^verbatim>\<open>TypeError\<close> at \<^verbatim>\<open>result[category]\<close>:
  at the assignment when the test finds nothing, at the read of the loop when it does.
  On the other values the test \<^verbatim>\<open>category not in result\<close> raises.
\<close>

fun add_default_subcategories :: "json \<Rightarrow> error + json" where
  "add_default_subcategories (JObj result) =
     (case add_defaults model_fields result of Inl e \<Rightarrow> Inl e | Inr r \<Rightarrow> Inr (JObj r))"
| "add_default_subcategories (JArr xs) =
     (if JStr ''tasks'' \<notin> set xs then Inl (TypeError SetItem (JArr xs))
      else Inl (TypeError GetItem (JArr xs)))"
| "add_default_subcategories (JStr s) =
     (if \<not> sublist ''tasks'' s then Inl (TypeError SetItem (JStr s))
      else Inl (TypeError GetItem (JStr s)))"
| "add_default_subcategories JNull = Inl (TypeError Contains JNull)"
| "add_default_subcategories (JBool b) = Inl (TypeError Contains (JBool b))"
| "add_default_subcategories (JNum n) = Inl (TypeError Contains (JNum n))"

subsection \<open>\<^verbatim>\<open>MeetingInsight.model_validate\<close> on a JSON value\<close>

text \<open>
  The schema the two classes declare: an item is a \<^verbatim>\<open>dict\<close> with the strings
  \<^verbatim>\<open>point\<close>, \<^verbatim>\<open>quote\<close>, \<^verbatim>\<open>speaker\<close> and a \<^verbatim>\<open>subcategory\<close> that is the value of a
  member; other keys are ignored. A field of \<^verbatim>\<open>MeetingInsight\<close> is a \<^verbatim>\<open>list\<close> of items
  and is empty when its key is absent. The three functions below say which part is
  rejected; \<open>model_validate_B\<close> raises the one \<^verbatim>\<open>ValidationError\<close> of the call.
\<close>

fun validate_item_B :: "json \<Rightarrow> error + SubCategory_B InsightItem" where
  "validate_item_B (JObj kvs) =
     (case (map_of kvs ''point'', map_of kvs ''quote'', map_of kvs ''speaker'',
            map_of kvs ''subcategory'') of
        (Some (JStr p), Some (JStr q), Some (JStr s), Some (JStr c)) \<Rightarrow>
          (case SubCategory_B_of c of
             None \<Rightarrow> Inl (ValidationError (JObj kvs))
           | Some t \<Rightarrow> Inr \<lparr>point = p, quote = q, speaker = s, subcategory = t\<rparr>)
      | _ \<Rightarrow> Inl (ValidationError (JObj kvs)))"
| "validate_item_B j = Inl (ValidationError j)"

fun validate_items_B :: "json option \<Rightarrow> error + SubCategory_B InsightItem list" where
  "validate_items_B None = Inr []"
| "validate_items_B (Some (JArr xs)) = mapM validate_item_B xs"
| "validate_items_B (Some j) = Inl (ValidationError j)"

fun validate_fields_B ::
  "category list \<Rightarrow> (string \<times> json) list \<Rightarrow> SubCategory_B MeetingInsight
   \<Rightarrow> error + SubCategory_B MeetingInsight" where
  "validate_fields_B [] kvs m = Inr m"
| "validate_fields_B (field # others) kvs m =
     (case validate_items_B (map_of kvs (field_name field)) of
        Inl e \<Rightarrow> Inl e
      | Inr items \<Rightarrow> validate_fields_B others kvs (setattr m field items))"

fun model_validate_B :: "json \<Rightarrow> error + SubCategory_B MeetingInsight" where
  "model_validate_B (JObj kvs) =
     (case validate_fields_B model_fields kvs MeetingInsight_empty of
        Inl e \<Rightarrow> Inl (ValidationError (JObj kvs))
      | Inr m \<Rightarrow> Inr m)"
| "model_validate_B j = Inl (ValidationError j)"

subsection \<open>The processor\<close>

text \<open>
  The raw client returns text. A reply is what \<^verbatim>\<open>json.loads\<close> makes of
  \<^verbatim>\<open>response.choices[0].message.content\<close>: an exception of the call, of the
  indexing or of the parser is \<open>Inl\<close>.
\<close>

type_synonym backend_B = "SubCategory_B request list \<Rightarrow> error + json"

text \<open>The \<^verbatim>\<open>try\<close> block of \<^verbatim>\<open>analyze_transcript\<close> after the call.\<close>

definition analyze_reply_B :: "error + json \<Rightarrow> error + SubCategory_B MeetingInsight" where
  "analyze_reply_B reply =
     (case reply of
        Inl e \<Rightarrow> Inl e
      | Inr result \<Rightarrow>
          (case add_default_subcategories result of
             Inl e \<Rightarrow> Inl e
           | Inr result' \<Rightarrow> model_validate_B result'))"

text \<open>
  \<^verbatim>\<open>analyze_transcript\<close>: the handler prints the exception and returns
  \<^verbatim>\<open>MeetingInsight()\<close>; when the print raises, that exception leaves the function.
\<close>

definition analyze_transcript_B ::
  "runtime \<Rightarrow> backend_B \<Rightarrow> string \<Rightarrow> SubCategory_B world
   \<Rightarrow> (error + SubCategory_B MeetingInsight) \<times> SubCategory_B world" where
  "analyze_transcript_B rt backend transcript w =
     (let w1 = w\<lparr>calls := calls w @ [Analyze transcript]\<rparr>
      in case analyze_reply_B (backend (calls w1)) of
           Inr insight \<Rightarrow> (Inr insight, w1)
         | Inl e \<Rightarrow>
             (case print_error rt ''Error in analyze_transcript'' e of
                None \<Rightarrow> (Inr MeetingInsight_empty, w1)
              | Some e' \<Rightarrow> (Inl e', w1)))"

text \<open>\<^verbatim>\<open>improve_insights\<close>: no defaults here, and the handler raises again.\<close>

definition improve_insights_B :: "runtime \<Rightarrow> backend_B \<Rightarrow> SubCategory_B improve" where
  "improve_insights_B rt backend previous feedback transcript w =
     (let w1 = w\<lparr>calls := calls w @ [Improve previous feedback transcript]\<rparr>
      in case (case backend (calls w1) of
                 Inl e \<Rightarrow> Inl e
               | Inr result \<Rightarrow> model_validate_B result) of
           Inr new_insight \<Rightarrow> (Inr new_insight, w1)
         | Inl e \<Rightarrow> (Inl (print_and_raise rt ''Error in improve_insights'' e), w1))"

text \<open>
  \<^verbatim>\<open>PurePath.stem\<close> of a file name: the name without its last suffix, where a dot
  that starts or ends the name begins no suffix.
\<close>

definition stem :: "string \<Rightarrow> string" where
  "stem file_name =
     (let suffix = takeWhile (\<lambda>c. c \<noteq> CHR ''.'') (rev file_name);
          i = length file_name - length suffix - 1
      in if CHR ''.'' \<in> set file_name \<and> 0 < i \<and> suffix \<noteq> [] then take i file_name
         else file_name)"

text \<open>
  \<^verbatim>\<open>process_transcript\<close>: \<open>file_name\<close> is \<^verbatim>\<open>transcript_path.name\<close> and \<open>text\<close>
  what \<^verbatim>\<open>read_text\<close> returns. It reads, analyzes and returns; the handler prints
  and raises again. The \<^verbatim>\<open>OutputManager\<close> it constructs is not used, and nothing here
  calls \<^verbatim>\<open>_handle_human_review\<close>. (\<^verbatim>\<open>_preprocess_transcript\<close> is not called either.)
\<close>

definition process_transcript_B ::
  "runtime \<Rightarrow> backend_B \<Rightarrow> string \<Rightarrow> string \<Rightarrow> SubCategory_B world
   \<Rightarrow> (error + SubCategory_B MeetingInsight) \<times> SubCategory_B world" where
  "process_transcript_B rt backend file_name text w =
     (case OutputManager_init rt (stem file_name) w of
        (output_manager, w0) \<Rightarrow>
          (case progress_add_task rt (''[cyan]Reading '' @ file_name @ ''...'') of
             Some e \<Rightarrow> (Inl e, w0)
           | None \<Rightarrow>
               (case analyze_transcript_B rt backend text w0 of
                  (Inr insight, w1) \<Rightarrow> (Inr insight, w1)
                | (Inl e, w1) \<Rightarrow> (Inl (print_and_raise rt ''Error during analysis'' e), w1))))"

section \<open>The research assistant (\<^verbatim>\<open>research.py\<close>)\<close>

record ResearchResult =
  research_title :: string
  research_main :: string
  research_bullets :: string

text \<open>
  The schema of \<^verbatim>\<open>ResearchResult\<close> as the agent applies it to the model's final
  answer: three fields, each declared \<^verbatim>\<open>str\<close> with a description and nothing else.
\<close>

fun ResearchResult_validate :: "json \<Rightarrow> error + ResearchResult" where
  "ResearchResult_validate (JObj kvs) =
     (case (map_of kvs ''research_title'', map_of kvs ''research_main'',
            map_of kvs ''research_bullets'') of
        (Some (JStr t), Some (JStr m), Some (JStr b)) \<Rightarrow>
          Inr \<lparr>research_title = t, research_main = m, research_bullets = b\<rparr>
      | _ \<Rightarrow> Inl (ValidationError (JObj kvs)))"
| "ResearchResult_validate j = Inl (ValidationError j)"

text \<open>
  What the console shows: a line printed, a prompt of \<^verbatim>\<open>console.input\<close>, and the line
  \<^verbatim>\<open>Search query {query_number}: {query}\<close> that the tool writes with the built-in
  \<^verbatim>\<open>print\<close>.
\<close>

datatype event =
    Print string
  | Prompt string
  | PrintSearch int string

text \<open>
  The world of the research loop: the lines the console will still deliver, what it has
  shown, the queries given to \<^verbatim>\<open>search_agent.run\<close>, the calls of
  \<^verbatim>\<open>tavily_client.get_search_context\<close> as (query, max_results), and the files
  written as (path, content).
\<close>

record rworld =
  r_stdin :: "string list"
  r_out :: "event list"
  runs :: "string list"
  searches :: "(string \<times> nat) list"
  r_files :: "(string \<times> string) list"

text \<open>
  The language model behind the agent is outside the repository. For the runs so far
  (the current query last) it decides the tool calls, each a query and a
  \<^verbatim>\<open>query_number\<close>, and ends in an exception or in a final answer, which the agent
  validates against \<^verbatim>\<open>ResearchResult\<close> (\<^verbatim>\<open>result_type\<close>); an answer that is still
  invalid when the agent stops asking ends the run in an exception.
\<close>

record agent_outcome =
  tool_calls :: "(string \<times> int) list"
  answer :: "error + json"

type_synonym agent = "string list \<Rightarrow> agent_outcome"

text \<open>\<^verbatim>\<open>console.print\<close> of a message without interpolated data: it is shown.\<close>

definition rprint :: "string \<Rightarrow> rworld \<Rightarrow> rworld" where
  "rprint s w = w\<lparr>r_out := r_out w @ [Print s]\<rparr>"

text \<open>
  \<^verbatim>\<open>console.print\<close> of a message that carries data: it is shown, or the renderer
  raises and nothing is shown.
\<close>

definition rprint_data :: "runtime \<Rightarrow> string \<Rightarrow> rworld \<Rightarrow> error option \<times> rworld" where
  "rprint_data rt s w =
     (case console_print rt s of
        Some e \<Rightarrow> (Some e, w)
      | None \<Rightarrow> (None, w\<lparr>r_out := r_out w @ [Print s]\<rparr>))"

text \<open>
  \<^verbatim>\<open>console.input(prompt)\<close>: the prompt is shown when it is not empty, then a line is
  read.
\<close>

definition rinput :: "string \<Rightarrow> rworld \<Rightarrow> (error + string) \<times> rworld" where
  "rinput prompt w =
     (let w1 = (if prompt = [] then w else w\<lparr>r_out := r_out w @ [Prompt prompt]\<rparr>)
      in case r_stdin w1 of
           [] \<Rightarrow> (Inl EOFError, w1)
         | l # ls \<Rightarrow> (Inr l, w1\<lparr>r_stdin := ls\<rparr>))"

text \<open>The tool \<^verbatim>\<open>get_search\<close>, with \<^verbatim>\<open>deps.max_results = 3\<close>.\<close>

definition get_search :: "rworld \<Rightarrow> string \<times> int \<Rightarrow> rworld" where
  "get_search w call =
     (case call of (query, query_number) \<Rightarrow>
        w\<lparr>r_out := r_out w @ [PrintSearch query_number query],
          searches := searches w @ [(query, 3)]\<rparr>)"

text \<open>\<^verbatim>\<open>search_agent.run(query, deps=deps)\<close>\<close>

definition search_agent_run :: "agent \<Rightarrow> string \<Rightarrow> rworld \<Rightarrow> (error + ResearchResult) \<times> rworld" where
  "search_agent_run agent query w =
     (let w1 = w\<lparr>runs := runs w @ [query]\<rparr>;
          outcome = agent (runs w1);
          w2 = foldl get_search w1 (tool_calls outcome)
      in case answer outcome of
           Inl e \<Rightarrow> (Inl e, w2)
         | Inr j \<Rightarrow> (ResearchResult_validate j, w2))"

text \<open>\<^verbatim>\<open>s.replace(" ", "_")\<close>\<close>

definition replace_spaces :: "string \<Rightarrow> string" where
  "replace_spaces s = map (\<lambda>c. if c = CHR '' '' then CHR ''_'' else c) s"

text \<open>
  The block under \<^verbatim>\<open>if save == 'y'\<close>: the file is written, unless the write raises,
  and then its path is printed.
\<close>

definition save_results :: "runtime \<Rightarrow> ResearchResult \<Rightarrow> rworld \<Rightarrow> error option \<times> rworld" where
  "save_results rt result w =
     (let filename = take 50 (replace_spaces (lower (research_title result))) @ ''.md'';
          output_path = str_path rt [''research_output'', filename];
          markdown = join [NL, NL]
            [''# '' @ research_title result, research_main result,
             ''## Key Points'', research_bullets result]
      in case write_text_error rt filename of
           Some e \<Rightarrow> (Some e, w)
         | None \<Rightarrow>
             rprint_data rt (''[green]Results saved to: '' @ output_path @ ''[/green]'')
               (w\<lparr>r_files := r_files w @ [(output_path, markdown)]\<rparr>))"

text \<open>The five lines under \<^verbatim>\<open># Print results\<close>; three of them carry the answer.\<close>

definition print_results :: "runtime \<Rightarrow> ResearchResult \<Rightarrow> rworld \<Rightarrow> error option \<times> rworld" where
  "print_results rt result w =
     (case rprint_data rt (''[bold blue]# '' @ research_title result @ ''[/bold blue]'')
             (rprint ([NL] @ ''[bold green]Research Results:[/bold green]'') w) of
        (Some e, w1) \<Rightarrow> (Some e, w1)
      | (None, w1) \<Rightarrow>
          (case rprint_data rt ([NL] @ research_main result) w1 of
             (Some e, w2) \<Rightarrow> (Some e, w2)
           | (None, w2) \<Rightarrow>
               rprint_data rt (research_bullets result)
                 (rprint ([NL] @ ''[bold cyan]Key Points:[/bold cyan]'') w2)))"

text \<open>The prompts of the loop.\<close>

definition query_prompt :: string where
  "query_prompt = [NL] @ ''[bold yellow]Enter your research query (or 'q' to quit): [/bold yellow]''"

definition save_prompt :: string where
  "save_prompt = [NL] @ ''[yellow]Save results to file? (y/n): [/yellow]''"

definition another_prompt :: string where
  "another_prompt = [NL] @ ''[yellow]Research another topic? (y/n): [/yellow]''"

text \<open>
  The \<^verbatim>\<open>try\<close> block of one round. \<open>Inr True\<close> goes on to the next round, \<open>Inr False\<close>
  is \<^verbatim>\<open>break\<close>, \<open>Inl e\<close> is an exception raised inside the block.
\<close>

definition research_try :: "runtime \<Rightarrow> agent \<Rightarrow> string \<Rightarrow> rworld \<Rightarrow> (error + bool) \<times> rworld" where
  "research_try rt agent query w =
     (case rprint_data rt ([NL] @ ''[cyan]Researching: '' @ query @ ''[/cyan]'') w of
        (Some e, w1) \<Rightarrow> (Inl e, w1)
      | (None, w1) \<Rightarrow>
          (case search_agent_run agent query w1 of
             (Inl e, w2) \<Rightarrow> (Inl e, w2)
           | (Inr result, w2) \<Rightarrow>
               (case print_results rt result w2 of
                  (Some e, w3) \<Rightarrow> (Inl e, w3)
                | (None, w3) \<Rightarrow>
                    (case rinput save_prompt w3 of
                       (Inl e, w4) \<Rightarrow> (Inl e, w4)
                     | (Inr save, w4) \<Rightarrow>
                         (case (if lower save = ''y'' then save_results rt result w4
                                else (None, w4)) of
                            (Some e, w5) \<Rightarrow> (Inl e, w5)
                          | (None, w5) \<Rightarrow>
                              (case rinput another_prompt w5 of
                                 (Inl e, w6) \<Rightarrow> (Inl e, w6)
                               | (Inr continue_research, w6) \<Rightarrow>
                                   if lower continue_research \<noteq> ''y''
                                   then (Inr False, rprint ''[green]Goodbye![/green]'' w6)
                                   else (Inr True, w6)))))))"

text \<open>
  The handler \<^verbatim>\<open>except Exception as e\<close>: its print of the exception and its own
  \<^verbatim>\<open>console.input()\<close> may raise, and what they raise leaves \<^verbatim>\<open>main\<close>.
\<close>

definition research_except :: "runtime \<Rightarrow> error \<Rightarrow> rworld \<Rightarrow> (error + bool) \<times> rworld" where
  "research_except rt e w =
     (case rprint_data rt (error_message rt ''Error during research'' e) w of
        (Some e', w1) \<Rightarrow> (Inl e', w1)
      | (None, w1) \<Rightarrow>
          (case rinput [] (rprint ''[yellow]Would you like to try again? (y/n): [/yellow]'' w1) of
             (Inl e', w2) \<Rightarrow> (Inl e', w2)
           | (Inr again, w2) \<Rightarrow>
               if lower again \<noteq> ''y'' then (Inr False, w2) else (Inr True, w2)))"

text \<open>One round after the query has been read and found neither \<^verbatim>\<open>q\<close> nor blank.\<close>

definition research_round :: "runtime \<Rightarrow> agent \<Rightarrow> string \<Rightarrow> rworld \<Rightarrow> (error + bool) \<times> rworld" where
  "research_round rt agent query w =
     (case research_try rt agent query w of
        (Inl e, w1) \<Rightarrow> research_except rt e w1
      | (Inr go_on, w1) \<Rightarrow> (Inr go_on, w1))"

text \<open>
  The \<^verbatim>\<open>while True\<close> loop of \<^verbatim>\<open>main\<close>. Every round reads a line first, so on a
  finite input the loop ends: with \<^verbatim>\<open>break\<close>, or with an exception raised outside
  the \<^verbatim>\<open>try\<close> block or inside its handler.
\<close>

function research_loop :: "runtime \<Rightarrow> agent \<Rightarrow> rworld \<Rightarrow> (error + unit) \<times> rworld" where
  "research_loop rt agent w =
     (case rinput query_prompt w of
        (Inl e, w1) \<Rightarrow> (Inl e, w1)
      | (Inr query, w1) \<Rightarrow>
          if lower query = ''q'' then (Inr (), rprint ''[green]Goodbye![/green]'' w1)
          else if strip query = [] then
            research_loop rt agent (rprint ''[red]Please enter a valid query.[/red]'' w1)
          else
            (case research_round rt agent query w1 of
               (Inl e, w2) \<Rightarrow> (Inl e, w2)
             | (Inr go_on, w2) \<Rightarrow> if go_on then research_loop rt agent w2 else (Inr (), w2)))"
  by pat_completeness auto
termination
proof (relation "measure (\<lambda>(rt, agent, w). length (r_stdin w))")
  show "wf (measure (\<lambda>(rt, agent, w). length (r_stdin w)))"
    by simp
next
  fix rt :: runtime and agent :: agent and w :: rworld and x query w1
  assume "(x, w1) = rinput query_prompt w" and "x = Inr query"
  then have "length (r_stdin w1) < length (r_stdin w)"
    by (auto simp: rinput_def Let_def split: list.splits if_splits)
  then show "((rt, agent, rprint ''[red]Please enter a valid query.[/red]'' w1), rt, agent, w)
             \<in> measure (\<lambda>(rt, agent, w). length (r_stdin w))"
    by (simp add: rprint_def)
next
  fix rt :: runtime and agent :: agent and w :: rworld and x query w1 y w2 go_on
  assume a: "(x, w1) = rinput query_prompt w" "x = Inr query"
    "(y, w2) = research_round rt agent query w1"
  have lt: "length (r_stdin w1) < length (r_stdin w)"
    using a(1,2) by (auto simp: rinput_def Let_def split: list.splits if_splits)
  have in_le: "length (r_stdin (snd (rinput p v))) \<le> length (r_stdin v)" for p v
    by (auto simp: rinput_def Let_def split: list.splits)
  have pd: "r_stdin (snd (rprint_data rt s v)) = r_stdin v" for s v
    by (auto simp: rprint_data_def split: option.splits)
  have gs: "r_stdin (foldl get_search v cs) = r_stdin v" for v cs
    by (induction cs arbitrary: v) (auto simp: get_search_def split: prod.splits)
  have run: "r_stdin (snd (search_agent_run agent query v)) = r_stdin v" for v
    by (auto simp: search_agent_run_def Let_def gs split: sum.splits)
  have pr: "r_stdin (snd (print_results rt r v)) = r_stdin v" for r v
  proof -
    let ?v0 = "rprint ([NL] @ ''[bold green]Research Results:[/bold green]'') v"
    let ?t1 = "''[bold blue]# '' @ research_title r @ ''[/bold blue]''"
    obtain e1 v1 where s1: "rprint_data rt ?t1 ?v0 = (e1, v1)" by fastforce
    have v1: "r_stdin v1 = r_stdin v" using pd [of ?t1 ?v0] s1 by (simp add: rprint_def)
    obtain e2 v2 where s2: "rprint_data rt ([NL] @ research_main r) v1 = (e2, v2)" by fastforce
    have v2: "r_stdin v2 = r_stdin v" using pd [of "[NL] @ research_main r" v1] s2 v1 by simp
    let ?v3 = "rprint ([NL] @ ''[bold cyan]Key Points:[/bold cyan]'') v2"
    have v3: "r_stdin (snd (rprint_data rt (research_bullets r) ?v3)) = r_stdin v"
      using pd [of "research_bullets r" ?v3] v2 by (simp add: rprint_def)
    show ?thesis
      using s1 s2 v1 v2 v3 by (cases e1; cases e2) (simp_all add: print_results_def)
  qed
  have sv: "r_stdin (snd (save_results rt r v)) = r_stdin v" for r v
    unfolding save_results_def Let_def
    by (cases "write_text_error rt (take 50 (replace_spaces (lower (research_title r))) @ ''.md'')")
       (simp_all add: pd)
  have ex: "length (r_stdin (snd (research_except rt e v))) \<le> length (r_stdin v)" for e v
  proof -
    obtain e1 v1 where s1: "rprint_data rt (error_message rt ''Error during research'' e) v = (e1, v1)"
      by fastforce
    have v1: "r_stdin v1 = r_stdin v"
      using pd [of "error_message rt ''Error during research'' e" v] s1 by simp
    let ?v2 = "rprint ''[yellow]Would you like to try again? (y/n): [/yellow]'' v1"
    obtain r2 v3 where s2: "rinput [] ?v2 = (r2, v3)" by fastforce
    have v3: "length (r_stdin v3) \<le> length (r_stdin v)"
      using in_le [of "[]" ?v2] s2 v1 by (simp add: rprint_def)
    show ?thesis
      using s1 s2 v1 v3 by (cases e1; cases r2) (simp_all add: research_except_def)
  qed
  have tr: "length (r_stdin (snd (research_try rt agent query v))) \<le> length (r_stdin v)" for v
  proof -
    let ?t0 = "[NL] @ ''[cyan]Researching: '' @ query @ ''[/cyan]''"
    obtain e0 v1 where s0: "rprint_data rt ?t0 v = (e0, v1)" by fastforce
    have v1: "r_stdin v1 = r_stdin v" using pd [of ?t0 v] s0 by simp
    obtain r v2 where s: "search_agent_run agent query v1 = (r, v2)" by fastforce
    have v2: "r_stdin v2 = r_stdin v" using run [of v1] s v1 by simp
    show ?thesis
    proof (cases e0)
      case (Some e)
      then show ?thesis using s0 v1 by (simp add: research_try_def)
    next
      case None
      show ?thesis
      proof (cases r)
        case (Inl e)
        then show ?thesis using None s0 s v2 by (simp add: research_try_def)
      next
        case (Inr result)
        obtain e3 v3 where s3: "print_results rt result v2 = (e3, v3)" by fastforce
        have v3: "r_stdin v3 = r_stdin v" using pr [of result v2] s3 v2 by simp
        obtain s1 v4 where i1: "rinput save_prompt v3 = (s1, v4)" by fastforce
        have v4: "length (r_stdin v4) \<le> length (r_stdin v)"
          using in_le [of save_prompt v3] i1 v3 by simp
        let ?sv = "if lower (projr s1) = ''y'' then save_results rt result v4 else (None, v4)"
        obtain e5 v5 where s5: "?sv = (e5, v5)" by fastforce
        have v5: "r_stdin v5 = r_stdin v4"
          using s5 sv [of result v4] by (auto split: if_splits)
        obtain s2 v6 where i2: "rinput another_prompt v5 = (s2, v6)" by fastforce
        have v6: "length (r_stdin v6) \<le> length (r_stdin v)"
          using in_le [of another_prompt v5] i2 v5 v4 by simp
        show ?thesis
          using None Inr s0 s s3 i1 s5 i2 v3 v4 v5 v6
          by (cases e3; cases s1; cases e5; cases s2)
             (auto simp: research_try_def rprint_def)
      qed
    qed
  qed
  have "length (r_stdin w2) \<le> length (r_stdin w1)"
  proof -
    obtain r v where t: "research_try rt agent query w1 = (r, v)" by fastforce
    have v: "length (r_stdin v) \<le> length (r_stdin w1)" using tr [of w1] t by simp
    show ?thesis
    proof (cases r)
      case (Inl e)
      with a(3) t have "w2 = snd (research_except rt e v)"
        by (simp add: research_round_def) (metis snd_conv)
      with ex [of e v] v show ?thesis by simp
    next
      case (Inr b)
      with a(3) t v show ?thesis by (simp add: research_round_def)
    qed
  qed
  with lt show "((rt, agent, w2), rt, agent, w) \<in> measure (\<lambda>(rt, agent, w). length (r_stdin w))"
    by simp
qed

declare research_loop.simps [simp del]

text \<open>\<^verbatim>\<open>main\<close>\<close>

definition research_main_loop :: "runtime \<Rightarrow> agent \<Rightarrow> rworld \<Rightarrow> (error + unit) \<times> rworld" where
  "research_main_loop rt agent w =
     research_loop rt agent (rprint ''[bold green]Research Assistant[/bold green]'' w)"

section \<open>The readings of the specification, and sample values\<close>

text \<open>
  A reply of the backend with one well-formed task, and a transcript that holds only
  a space and a line feed.
\<close>

definition one_task_reply :: json where
  "one_task_reply =
     JObj [(''tasks'', JArr [JObj [(''point'', JStr ''Finish API''),
                                   (''quote'', JStr ''I will finish the API by Friday.''),
                                   (''speaker'', JStr ''Alice''),
                                   (''subcategory'', JStr ''proposed'')]])]"

definition one_task_B :: "SubCategory_B MeetingInsight" where
  "one_task_B =
     MeetingInsight_empty\<lparr>tasks := [\<lparr>point = ''Finish API'',
        quote = ''I will finish the API by Friday.'', speaker = ''Alice'',
        subcategory = PROPOSED_B\<rparr>]\<rparr>"

definition one_task_A :: "SubCategory_A MeetingInsight" where
  "one_task_A =
     MeetingInsight_empty\<lparr>tasks := [\<lparr>point = ''Finish API'',
        quote = ''I will finish the API by Friday.'', speaker = ''Alice'',
        subcategory = ASSIGNED_A\<rparr>]\<rparr>"

definition blank_transcript :: string where
  "blank_transcript = [CHR '' '', NL]"

text \<open>A world in which nothing has happened yet, with the given console input.\<close>

definition fresh :: "string list \<Rightarrow> 'c world" where
  "fresh lines = \<lparr>stdin = lines, calls = [], files = [], clock_reads = 0\<rparr>"

text \<open>The item that manual entry makes of a line.\<close>

definition manual_item :: "'c \<Rightarrow> string \<Rightarrow> 'c InsightItem" where
  "manual_item proposed line =
     \<lparr>point = line, quote = ''Manually entered'', speaker = ''Manual Entry'',
      subcategory = proposed\<rparr>"

text \<open>Lines typed for the manual entry: one task, two decisions, nothing else.\<close>

fun typed_lines :: "category \<Rightarrow> string list" where
  "typed_lines Tasks = [''Ship the API'']"
| "typed_lines Decisions = [''Use Postgres'', ''Drop the cache'']"
| "typed_lines c = []"

text \<open>A transcript, what a refinement might return for it, and a backend stub for variant A
  that answers the analysis with one task and every improvement with \<open>refined_A\<close>.\<close>

definition standup :: string where
  "standup = ''Alice: I will finish the API by Friday.''"

definition refined_A :: "SubCategory_A MeetingInsight" where
  "refined_A =
     one_task_A\<lparr>attendees := [\<lparr>point = ''Bob attends'', quote = ''Bob: hello.'',
        speaker = ''Bob'', subcategory = NAMED_A\<rparr>]\<rparr>"

definition stub_A :: backend_A where
  "stub_A cs = (case last cs of Analyze t \<Rightarrow> Inr one_task_A | Improve p f t \<Rightarrow> Inr refined_A)"

text \<open>
  The heading of each sequence in \<^verbatim>\<open>to_markdown\<close>, and the text of one section: its
  lines joined by line feeds.
\<close>

fun heading :: "category \<Rightarrow> string" where
  "heading Tasks = ''Tasks''"
| "heading Decisions = ''Decisions''"
| "heading Questions = ''Questions''"
| "heading Attendees = ''Attendees''"
| "heading Deadlines = ''Deadlines''"
| "heading Follow_ups = ''Follow-ups''"
| "heading Risks = ''Risks''"

definition section_text :: "('c \<Rightarrow> string) \<Rightarrow> string \<times> 'c InsightItem list \<Rightarrow> string" where
  "section_text fmt s = join [NL] (section_lines fmt s)"

text \<open>
  A final answer of the research agent with an empty title, an agent that makes one
  search and gives that answer, and a research world in which nothing has happened yet.
\<close>

definition untitled_answer :: json where
  "untitled_answer =
     JObj [(''research_title'', JStr ''''),
           (''research_main'', JStr ''Isabelle is a proof assistant.''),
           (''research_bullets'', JStr ''- generic'')]"

definition untitled_agent :: agent where
  "untitled_agent rs = \<lparr>tool_calls = [(''isabelle prover'', 1)], answer = Inr untitled_answer\<rparr>"

definition rfresh :: "string list \<Rightarrow> rworld" where
  "rfresh lines = \<lparr>r_stdin = lines, r_out = [], runs = [], searches = [], r_files = []\<rparr>"

text \<open>
  The specification's account of variant B on a reply that fails validation, in its own
  words: default sub-tags are substituted for items missing the subcategory field and
  empty sequences for missing categories, validation is tried once more, and then the
  extractor gives up with the empty result. \<open>spec_item_default\<close> gives an item that
  is an object without the key \<^verbatim>\<open>subcategory\<close> the default of its category;
  \<open>spec_category_default\<close> gives a missing category the empty sequence and substitutes
  in the items of a sequence; anything else is left as it is.
\<close>

definition spec_item_default :: "category \<Rightarrow> json \<Rightarrow> json" where
  "spec_item_default c item =
     (case item of
        JObj kvs \<Rightarrow>
          if map_of kvs ''subcategory'' = None
          then JObj (kvs @ [(''subcategory'', JStr (default_subcategory c))])
          else item
      | _ \<Rightarrow> item)"

definition spec_category_default :: "category \<Rightarrow> json option \<Rightarrow> json" where
  "spec_category_default c v =
     (case v of
        None \<Rightarrow> JArr []
      | Some (JArr xs) \<Rightarrow> JArr (map (spec_item_default c) xs)
      | Some j \<Rightarrow> j)"

definition spec_substitute_defaults :: "json \<Rightarrow> json" where
  "spec_substitute_defaults reply =
     (case reply of
        JObj kvs \<Rightarrow>
          JObj (map (\<lambda>c. (field_name c, spec_category_default c (map_of kvs (field_name c))))
                  model_fields)
      | _ \<Rightarrow> reply)"

definition spec_extract_B :: "error + json \<Rightarrow> SubCategory_B MeetingInsight" where
  "spec_extract_B reply =
     (case reply of
        Inl e \<Rightarrow> MeetingInsight_empty
      | Inr j \<Rightarrow>
          (case model_validate_B j of
             Inr m \<Rightarrow> m
           | Inl e \<Rightarrow>
               (case model_validate_B (spec_substitute_defaults j) of
                  Inr m \<Rightarrow> m
                | Inl e' \<Rightarrow> MeetingInsight_empty)))"

text \<open>
  A reply in which the task has no subcategory, the category of decisions holds an item
  without one too, and the other categories are missing; and what variant B makes of it.
\<close>

definition untagged_reply :: json where
  "untagged_reply =
     JObj [(''tasks'', JArr [JObj [(''point'', JStr ''Finish API''),
                                   (''quote'', JStr ''I will finish the API by Friday.''),
                                   (''speaker'', JStr ''Alice'')]]),
           (''decisions'', JArr [JObj [(''point'', JStr ''Use Postgres''),
                                       (''quote'', JStr ''Postgres it is.''),
                                       (''speaker'', JStr ''Bob'')]])]"

definition untagged_insight :: "SubCategory_B MeetingInsight" where
  "untagged_insight =
     MeetingInsight_empty
       \<lparr>tasks := [\<lparr>point = ''Finish API'', quote = ''I will finish the API by Friday.'',
                   speaker = ''Alice'', subcategory = PROPOSED_B\<rparr>],
        decisions := [\<lparr>point = ''Use Postgres'', quote = ''Postgres it is.'',
                       speaker = ''Bob'', subcategory = APPROVED_B\<rparr>]\<rparr>"





text \<open>The key-value pairs of \<open>spec_substitute_defaults\<close>, for the proofs about the defaults.\<close>

definition substituted :: "(string \<times> json) list \<Rightarrow> (string \<times> json) list" where
  "substituted kvs =
     map (\<lambda>c. (field_name c, spec_category_default c (map_of kvs (field_name c)))) model_fields"

text \<open>
  A sample of what the interpreter and the libraries give. The interpreter is Python
  3.11. A style name is normalized to its stripped lower case, which is what \<^verbatim>\<open>rich\<close>
  makes of every style name in the messages of the sources (\<^verbatim>\<open>red\<close>, \<^verbatim>\<open>green\<close>,
  \<^verbatim>\<open>bold blue\<close>, ...) and of every name that is no style. The clock reads nine
  o'clock and then half a minute later, a path is shown with its parts joined by
  slashes, and a file whose name holds a slash cannot be written, its directory
  missing. The text of a \<^verbatim>\<open>ValidationError\<close> is the one pydantic gives when the
  subcategory of the first task is not a value of the enumeration of
  \<^verbatim>\<open>meet-02.py\<close>: it quotes the input.
\<close>

definition enum_error_text :: "string \<Rightarrow> string" where
  "enum_error_text input_value =
     ''1 validation error for MeetingInsight'' @ [NL] @ ''tasks.0.subcategory'' @ [NL]
     @ ''  Input should be 'proposed', 'confirmed', 'blocked', 'completed', 'approved',''
     @ '' 'rejected', 'deferred', 'asked', 'answered', 'unresolved', 'named', 'roles',''
     @ '' 'teams', 'immediate', 'short_term', 'medium_term', 'meetings', 'reviews',''
     @ '' 'dependencies', 'technical', 'timeline' or 'stakeholder' ''
     @ ''[type=enum, input_value='' @ [QUOTE] @ input_value @ [QUOTE] @ '', input_type=str]''"

definition sample_exc_text :: "error \<Rightarrow> string" where
  "sample_exc_text e =
     (case e of
        ValidationError (JObj kvs) \<Rightarrow>
          (case map_of kvs ''tasks'' of
             Some (JArr (JObj item # items)) \<Rightarrow>
               (case map_of item ''subcategory'' of
                  Some (JStr c) \<Rightarrow> enum_error_text c
                | _ \<Rightarrow> ''1 validation error for MeetingInsight'')
           | _ \<Rightarrow> ''1 validation error for MeetingInsight'')
      | ValidationError j \<Rightarrow> ''1 validation error for MeetingInsight''
      | TypeError failed v \<Rightarrow> ''argument of type 'NoneType' is not iterable''
      | _ \<Rightarrow> [])"

definition cpython311 :: runtime where
  "cpython311 =
     \<lparr>py311 = True,
      style_normalize = (\<lambda>s. lower (strip s)),
      meta_error = (\<lambda>parameters. None),
      exc_text = sample_exc_text,
      strftime_now = (\<lambda>n. if n = 0 then ''20240102_090000'' else ''20240102_090030''),
      str_path = join ''/'',
      write_text_error =
        (\<lambda>filename. if CHR ''/'' \<in> set filename
           then Some (OSError (''[Errno 2] No such file or directory: '' @ [QUOTE]
                               @ ''research_output/'' @ filename @ [QUOTE]))
           else None)\<rparr>"

text \<open>
  The text of an exception of the backend that quotes a token of the model's output,
  and a reply in which the model has put that token where the subcategory belongs.
\<close>

definition leaked_token :: string where
  "leaked_token = ''unexpected token [/INST] in the model output''"

definition leaked_token_reply :: json where
  "leaked_token_reply =
     JObj [(''tasks'', JArr [JObj [(''point'', JStr ''Finish API''),
                                   (''quote'', JStr ''I will finish the API by Friday.''),
                                   (''speaker'', JStr ''Alice''),
                                   (''subcategory'', JStr ''[/INST]'')]])]"
section \<open>Blank transcripts\<close>

lemma strip_empty_iff: "strip s = [] \<longleftrightarrow> (\<forall>c\<in>set s. isspace c)"
proof
  assume "strip s = []"
  then have a: "\<forall>x\<in>set (dropWhile isspace s). isspace x"
    by (simp add: strip_def dropWhile_eq_Nil_conv)
  have "dropWhile isspace s = []"
  proof (rule ccontr)
    assume n: "dropWhile isspace s \<noteq> []"
    then have "\<not> isspace (hd (dropWhile isspace s))" by (rule hd_dropWhile)
    moreover have "hd (dropWhile isspace s) \<in> set (dropWhile isspace s)" using n by simp
    ultimately show False using a by blast
  qed
  then show "\<forall>c\<in>set s. isspace c" by (simp add: dropWhile_eq_Nil_conv)
next
  assume "\<forall>c\<in>set s. isspace c"
  then have d: "dropWhile isspace s = []" by (simp add: dropWhile_eq_Nil_conv)
  show "strip s = []" unfolding strip_def d by simp
qed

text \<open>
  Variant A returns the empty \<^verbatim>\<open>MeetingInsight\<close> for a transcript that is empty or
  all whitespace: no backend call, no file. The only effect is the reading of the
  clock in the constructor of the \<^verbatim>\<open>OutputManager\<close>.
\<close>

lemma process_transcript_A_blank:
  "\<forall>c\<in>set text. isspace c \<Longrightarrow>
   process_transcript_A rt backend auto_mode name text w
     = (Inr MeetingInsight_empty, w\<lparr>clock_reads := Suc (clock_reads w)\<rparr>)"
  by (simp add: process_transcript_A_def OutputManager_init_def strip_empty_iff)

lemma process_transcript_A_blank_example:
  "process_transcript_A cpython311 (\<lambda>cs. Inr one_task_A) False ''standup''
     blank_transcript (fresh [])
   = (Inr MeetingInsight_empty, \<lparr>stdin = [], calls = [], files = [], clock_reads = 1\<rparr>)"
  using process_transcript_A_blank [of blank_transcript cpython311]
  by (simp add: blank_transcript_def isspace_def fresh_def)

lemma reading_standup: "progress_add_task rt ''[cyan]Reading standup.md...'' = None"
  by (simp add: progress_add_task_def console_print_def markup_error_def match_tag_def
        tag_start_def parse_tag_def)

lemma stem_standup: "stem ''standup.md'' = ''standup''"
  by (simp add: stem_def Let_def)

lemma one_task_reply_valid: "model_validate_B one_task_reply = Inr one_task_B"
  by (simp add: one_task_reply_def one_task_B_def model_fields_def
        SubCategory_B_of_def SubCategory_B_members_def MeetingInsight_empty_def)

lemma one_task_reply_insight: "analyze_reply_B (Inr one_task_reply) = Inr one_task_B"
  by (simp add: analyze_reply_B_def one_task_reply_def one_task_B_def model_fields_def
        entry_def SubCategory_B_of_def SubCategory_B_members_def MeetingInsight_empty_def)

text \<open>
  Claim C1: a transcript that is empty or all whitespace gives a \<^verbatim>\<open>MeetingInsight\<close>
  with seven empty sequences and no backend call. Variant A does so
  (\<open>process_transcript_A_blank\<close>). Variant B has no such test: on the transcript of a
  space and a line feed it issues the analysis call, and with a backend that answers
  one task it returns that task.
\<close>

theorem process_transcript_B_blank:
  "process_transcript_B rt (\<lambda>cs. Inr one_task_reply) ''standup.md'' blank_transcript (fresh [])
   = (Inr one_task_B,
      \<lparr>stdin = [], calls = [Analyze blank_transcript], files = [], clock_reads = 1\<rparr>)
   \<and> strip blank_transcript = []
   \<and> tasks one_task_B \<noteq> []"
  by (simp add: process_transcript_B_def analyze_transcript_B_def OutputManager_init_def
        one_task_reply_insight fresh_def reading_standup)
     (simp add: blank_transcript_def isspace_def strip_def one_task_B_def)

section \<open>Refinement that fails\<close>

text \<open>
  When the backend call of the refinement raises, \<^verbatim>\<open>improve_insights\<close> prints the
  exception and raises it again, and the handler of \<^verbatim>\<open>_handle_iteration\<close> prints it
  and returns the previous \<^verbatim>\<open>MeetingInsight\<close> as it was, in both variants: provided
  that the two messages render. The only change to the world is the call that was
  issued; no file is written.
\<close>

lemma handle_iteration_backend_failure_rendered:
  assumes "print_error rt ''Error in improve_insights'' e = None"
    and "print_error rt ''Error during iteration'' e = None"
  shows "backend_a (calls wa @ [Improve pa feedback transcript]) = Inl e \<Longrightarrow>
      handle_iteration rt fmt_a saved_a (improve_insights_A rt backend_a) pa feedback transcript name wa
      = (Inr pa, wa\<lparr>calls := calls wa @ [Improve pa feedback transcript]\<rparr>)"
    and "backend_b (calls wb @ [Improve pb feedback transcript]) = Inl e \<Longrightarrow>
      handle_iteration rt fmt_b saved_b (improve_insights_B rt backend_b) pb feedback transcript name wb
      = (Inr pb, wb\<lparr>calls := calls wb @ [Improve pb feedback transcript]\<rparr>)"
  using assms
  by (simp_all add: handle_iteration_def improve_insights_A_def improve_insights_B_def Let_def
        print_and_raise_def iteration_failed_def)

lemma leaked_token_improve:
  "print_and_raise cpython311 ''Error in improve_insights'' (BackendError leaked_token)
   = MarkupError ''closing tag '[/INST]' at position 49 doesn't match any open tag''"
  by code_simp

lemma leaked_token_iteration:
  "print_error cpython311 ''Error during iteration''
     (MarkupError ''closing tag '[/INST]' at position 49 doesn't match any open tag'')
   = Some (MarkupError ''closing tag '[/INST]' at position 42 doesn't match any open tag'')"
  by code_simp

text \<open>
  Claim C2: when the backend call of the refinement raises, \<^verbatim>\<open>_handle_iteration\<close>
  returns the previous \<^verbatim>\<open>MeetingInsight\<close> unchanged. It does when the messages of the
  two handlers render (\<open>handle_iteration_backend_failure_rendered\<close>). The handlers
  print the text of the exception as console markup, though: when the backend raises
  an exception whose text holds \<^verbatim>\<open>[/INST]\<close>, the print in \<^verbatim>\<open>improve_insights\<close> raises
  \<^verbatim>\<open>MarkupError\<close>, whose text quotes the tag, so the print in the handler of
  \<^verbatim>\<open>_handle_iteration\<close> raises too, and the caller gets that exception and not the
  previous insight. In both variants.
\<close>

theorem handle_iteration_closing_tag:
  "handle_iteration cpython311 (format_SubCategory_A True) iteration_saved_A
      (improve_insights_A cpython311 (\<lambda>cs. Inl (BackendError leaked_token)))
      one_task_A ''add Bob as attendee'' standup ''standup'' (fresh [])
    = (Inl (MarkupError ''closing tag '[/INST]' at position 42 doesn't match any open tag''),
       \<lparr>stdin = [], calls = [Improve one_task_A ''add Bob as attendee'' standup],
        files = [], clock_reads = 0\<rparr>)
   \<and> handle_iteration cpython311 (format_SubCategory_B True) iteration_saved_B
      (improve_insights_B cpython311 (\<lambda>cs. Inl (BackendError leaked_token)))
      one_task_B ''add Bob as attendee'' standup ''standup'' (fresh [])
    = (Inl (MarkupError ''closing tag '[/INST]' at position 42 doesn't match any open tag''),
       \<lparr>stdin = [], calls = [Improve one_task_B ''add Bob as attendee'' standup],
        files = [], clock_reads = 0\<rparr>)"
  by (simp add: handle_iteration_def improve_insights_A_def improve_insights_B_def Let_def
        iteration_failed_def leaked_token_improve leaked_token_iteration fresh_def)

section \<open>Manual entry\<close>

lemma manual_items_lines:
  "[] \<notin> set ls \<Longrightarrow>
   manual_items p acc (ls @ [] # rest) = (Inr (acc @ map (manual_item p) ls), rest)"
  by (induction ls arbitrary: acc) (auto simp: manual_item_def)

lemma getattr_setattr:
  "getattr (setattr m c xs) c' = (if c' = c then xs else getattr m c')"
  by (cases c; cases c') simp_all

lemma manual_fields_lines:
  "\<forall>c\<in>set cs. [] \<notin> set (L c) \<Longrightarrow> distinct cs \<Longrightarrow>
   stdin w = concat (map (\<lambda>c. L c @ [[]]) cs) @ rest \<Longrightarrow>
   \<exists>m. manual_fields p cs m0 w = (Inr m, w\<lparr>stdin := rest\<rparr>)
     \<and> (\<forall>c. getattr m c = (if c \<in> set cs then map (manual_item p) (L c) else getattr m0 c))"
proof (induction cs arbitrary: m0 w)
  case Nil
  then show ?case by simp
next
  case (Cons c cs)
  let ?items = "map (manual_item p) (L c)"
  let ?w1 = "w\<lparr>stdin := concat (map (\<lambda>c. L c @ [[]]) cs) @ rest\<rparr>"
  have mi: "manual_items p [] (stdin w) = (Inr ?items, concat (map (\<lambda>c. L c @ [[]]) cs) @ rest)"
    using Cons.prems manual_items_lines [of "L c" p "[]"] by simp
  from Cons.IH [of ?w1 "setattr m0 c ?items"] Cons.prems
  obtain m where m: "manual_fields p cs (setattr m0 c ?items) ?w1 = (Inr m, ?w1\<lparr>stdin := rest\<rparr>)"
    and g: "\<forall>c'. getattr m c' = (if c' \<in> set cs then map (manual_item p) (L c')
            else getattr (setattr m0 c ?items) c')"
    by auto
  show ?case
    using mi m g Cons.prems(2) by (auto simp: getattr_setattr)
qed

text \<open>
  Claim C6: when the console delivers, for each of the seven categories in turn, the
  non-empty lines \<open>L c\<close> and then an empty line, manual entry returns a
  \<^verbatim>\<open>MeetingInsight\<close> whose sequence for \<open>c\<close> has exactly one item per line of \<open>L c\<close>,
  in order, with that line as \<^verbatim>\<open>point\<close>, the quote \<^verbatim>\<open>Manually entered\<close> and the
  speaker \<^verbatim>\<open>Manual Entry\<close>; it reads exactly those lines.
\<close>

theorem handle_manual_entry_lines:
  assumes "\<forall>c. [] \<notin> set (L c)"
    and "stdin w = concat (map (\<lambda>c. L c @ [[]]) model_fields) @ rest"
  shows "\<exists>m. handle_manual_entry p w = (Inr m, w\<lparr>stdin := rest\<rparr>)
     \<and> (\<forall>c. length (getattr m c) = length (L c)
            \<and> getattr m c = map (\<lambda>line. \<lparr>point = line, quote = ''Manually entered'',
                                           speaker = ''Manual Entry'', subcategory = p\<rparr>) (L c))"
proof -
  have d: "distinct model_fields" by (simp add: model_fields_def)
  have all: "c \<in> set model_fields" for c by (cases c) (simp_all add: model_fields_def)
  have mi: "manual_item p = (\<lambda>line. \<lparr>point = line, quote = ''Manually entered'',
                                      speaker = ''Manual Entry'', subcategory = p\<rparr>)"
    by (rule ext) (simp add: manual_item_def)
  from manual_fields_lines [of model_fields L w rest p MeetingInsight_empty] assms d
  show ?thesis
    unfolding handle_manual_entry_def mi using all by auto
qed

theorem handle_manual_entry_lines_witness:
  "(\<forall>c. [] \<notin> set (typed_lines c))
   \<and> (\<exists>m. handle_manual_entry PROPOSED_A
            (fresh [''Ship the API'', '''', ''Use Postgres'', ''Drop the cache'', '''',
                    '''', '''', '''', '''', '''', ''y''])
          = (Inr m, fresh [''y''])
        \<and> tasks m = [\<lparr>point = ''Ship the API'', quote = ''Manually entered'',
                       speaker = ''Manual Entry'', subcategory = PROPOSED_A\<rparr>]
        \<and> length (decisions m) = 2
        \<and> questions m = [])"
proof -
  have h1: "\<forall>c. [] \<notin> set (typed_lines c)"
  proof
    fix c show "[] \<notin> set (typed_lines c)" by (cases c) simp_all
  qed
  have h2: "stdin (fresh [''Ship the API'', '''', ''Use Postgres'', ''Drop the cache'', '''',
                    '''', '''', '''', '''', '''', ''y''] :: SubCategory_A world)
            = concat (map (\<lambda>c. typed_lines c @ [[]]) model_fields) @ [''y'']"
    by (simp add: fresh_def model_fields_def)
  from handle_manual_entry_lines [OF h1 h2, of PROPOSED_A]
  obtain m where m: "handle_manual_entry PROPOSED_A
            (fresh [''Ship the API'', '''', ''Use Postgres'', ''Drop the cache'', '''',
                    '''', '''', '''', '''', '''', ''y''])
          = (Inr m, fresh [''y''])"
    and g: "\<forall>c. length (getattr m c) = length (typed_lines c)
            \<and> getattr m c = map (\<lambda>line. \<lparr>point = line, quote = ''Manually entered'',
                                   speaker = ''Manual Entry'', subcategory = PROPOSED_A\<rparr>)
                                (typed_lines c)"
    by (auto simp: fresh_def)
  from g [rule_format, of Tasks] g [rule_format, of Decisions] g [rule_format, of Questions]
  have "tasks m = [\<lparr>point = ''Ship the API'', quote = ''Manually entered'',
                       speaker = ''Manual Entry'', subcategory = PROPOSED_A\<rparr>]
        \<and> length (decisions m) = 2 \<and> questions m = []"
    by simp
  with h1 m show ?thesis by blast
qed
section \<open>The review flow\<close>

text \<open>
  Variant A: whenever \<^verbatim>\<open>process_transcript\<close> returns an insight for a transcript that
  is not blank, whatever the review did, the last file written is the stage
  \<^verbatim>\<open>2_final_output\<close> of the run's directory, with the markdown of the insight
  returned.
\<close>

lemma process_transcript_A_persists_final:
  assumes "process_transcript_A rt backend auto_mode name text w = (Inr final, w')"
    and "strip text \<noteq> []"
  shows "files w' \<noteq> []
     \<and> last (files w')
         = (str_path rt [''output'', name, strftime_now rt (clock_reads w), ''2_final_output.md''],
            to_markdown (format_SubCategory_A (py311 rt)) final)"
  using assms
  by (auto simp: process_transcript_A_def Let_def save_output_def output_path_def
      OutputManager_init_def
      split: prod.splits sum.splits if_splits option.splits)

lemma nonempty_one_task_A:
  "\<not> list_all (\<lambda>field. getattr one_task_A field = []) model_fields"
  by (simp add: model_fields_def one_task_A_def)

lemma nonempty_one_task_B:
  "\<not> list_all (\<lambda>field. getattr one_task_B field = []) model_fields"
  by (simp add: model_fields_def one_task_B_def)

text \<open>
  Claim C3: whichever way the review ends, the \<^verbatim>\<open>MeetingInsight\<close> current at exit is
  written as a markdown stage artifact before the flow returns. Variant A does so
  (\<open>process_transcript_A_persists_final\<close>). In variant B \<^verbatim>\<open>process_transcript\<close>
  returns right after the analysis: the console line waiting for the review is not
  read, and no file is written.
\<close>

theorem process_transcript_B_no_review_no_file:
  "process_transcript_B rt (\<lambda>cs. Inr one_task_reply) ''standup.md'' standup (fresh [''y''])
   = (Inr one_task_B,
      \<lparr>stdin = [''y''], calls = [Analyze standup], files = [], clock_reads = 1\<rparr>)"
  by (simp add: process_transcript_B_def analyze_transcript_B_def OutputManager_init_def
        one_task_reply_insight fresh_def reading_standup)

lemma standup_paths_render:
  "console_print cpython311 (analysis_saved ''output/standup/20240102_090000/1_analysis.md'') = None"
  "console_print cpython311 (iteration_saved_A ''output/standup/20240102_090030/3_iteration.md'') = None"
  "console_print cpython311 (iteration_saved_B ''output/standup/20240102_090030/3_iteration.md'') = None"
  "console_print cpython311 (final_saved ''output/standup/20240102_090000/2_final_output.md'') = None"
  by code_simp+

lemma standup_paths:
  "output_path cpython311 \<lparr>transcript_name = ''standup'', timestamp = ''20240102_090000''\<rparr> ''1_analysis''
   = ''output/standup/20240102_090000/1_analysis.md''"
  "output_path cpython311 \<lparr>transcript_name = ''standup'', timestamp = ''20240102_090030''\<rparr> ''3_iteration''
   = ''output/standup/20240102_090030/3_iteration.md''"
  "output_path cpython311 \<lparr>transcript_name = ''standup'', timestamp = ''20240102_090000''\<rparr> ''2_final_output''
   = ''output/standup/20240102_090000/2_final_output.md''"
  by (simp_all add: output_path_def cpython311_def)

lemma standup_clock:
  "strftime_now cpython311 0 = ''20240102_090000''"
  "strftime_now cpython311 (Suc 0) = ''20240102_090030''"
  "py311 cpython311 = True"
  by (simp_all add: cpython311_def)

text \<open>
  Claim C4, as stated: after a rejection with feedback the refined result is put to the
  human again. It is not: in this run of variant A the human answers \<^verbatim>\<open>n\<close>, gives
  feedback, and the flow ends with the refined insight as final output; the two lines
  that would answer a second review are still unread.
\<close>

theorem process_transcript_A_no_second_review:
  "process_transcript_A cpython311 stub_A False ''standup'' standup
     (fresh [''n'', ''add Bob as attendee'', ''n'', ''again''])
   = (Inr refined_A,
      \<lparr>stdin = [''n'', ''again''],
       calls = [Analyze standup, Improve one_task_A ''add Bob as attendee'' standup],
       files = [(''output/standup/20240102_090000/1_analysis.md'',
                 to_markdown (format_SubCategory_A True) one_task_A),
                (''output/standup/20240102_090030/3_iteration.md'',
                 to_markdown (format_SubCategory_A True) refined_A),
                (''output/standup/20240102_090000/2_final_output.md'',
                 to_markdown (format_SubCategory_A True) refined_A)],
       clock_reads = 2\<rparr>)"
proof -
  have s: "strip standup = standup"
    by (simp add: strip_def standup_def isspace_def)
  have n: "standup \<noteq> []" by (simp add: standup_def)
  have l: "lower ''n'' \<noteq> ''y''" by (simp add: lower_def lower_char_def)
  show ?thesis
    unfolding process_transcript_A_def Let_def s
    by (simp add: n analyze_transcript_A_def handle_human_review_def nonempty_one_task_A
        console_input_def fresh_def stub_A_def save_output_def l handle_iteration_def
        improve_insights_A_def Let_def OutputManager_init_def standup_clock standup_paths
        standup_paths_render)
qed

text \<open>
  Claim C4, amended: when the human rejects insights that are not all empty and gives
  feedback, and the refiner produces a replacement, \<^verbatim>\<open>_handle_human_review\<close> returns
  at once. It has read the two lines (the answer and the feedback) and no more, issued
  the one refinement call, read the clock once and written the replacement as the
  stage \<^verbatim>\<open>3_iteration\<close>; the human is not asked again. What it returns is the
  replacement when the message that shows the path of that file renders, and the
  outcome of the handler of \<^verbatim>\<open>_handle_iteration\<close> otherwise. This holds with the
  \<^verbatim>\<open>improve_insights\<close> of either variant.
\<close>

theorem handle_human_review_single_pass:
  assumes "stdin wa = approval # feedback # rest" and "stdin wb = approval # feedback # rest"
    and "lower approval \<noteq> ''y''"
    and "\<not> list_all (\<lambda>field. length (getattr ia field) = 0) model_fields"
    and "\<not> list_all (\<lambda>field. length (getattr ib field) = 0) model_fields"
    and "backend_a (calls wa @ [Improve ia feedback transcript]) = Inr new_a"
    and "backend_b (calls wb @ [Improve ib feedback transcript]) = Inr reply"
    and "model_validate_B reply = Inr new_b"
  shows "handle_human_review rt (format_SubCategory_A (py311 rt)) iteration_saved_A
           (improve_insights_A rt backend_a) PROPOSED_A ia transcript name wa
         = (case console_print rt (iteration_saved_A
                  (str_path rt [''output'', name, strftime_now rt (clock_reads wa),
                                ''3_iteration.md''])) of
              None \<Rightarrow> Inr new_a
            | Some e \<Rightarrow>
                (case print_error rt ''Error during iteration'' e of
                   None \<Rightarrow> Inr ia
                 | Some e' \<Rightarrow> Inl e'),
            wa\<lparr>stdin := rest,
               calls := calls wa @ [Improve ia feedback transcript],
               files := files wa
                 @ [(str_path rt [''output'', name, strftime_now rt (clock_reads wa),
                                  ''3_iteration.md''],
                     to_markdown (format_SubCategory_A (py311 rt)) new_a)],
               clock_reads := Suc (clock_reads wa)\<rparr>)
       \<and> handle_human_review rt (format_SubCategory_B (py311 rt)) iteration_saved_B
           (improve_insights_B rt backend_b) PROPOSED_B ib transcript name wb
         = (case console_print rt (iteration_saved_B
                  (str_path rt [''output'', name, strftime_now rt (clock_reads wb),
                                ''3_iteration.md''])) of
              None \<Rightarrow> Inr new_b
            | Some e \<Rightarrow>
                (case print_error rt ''Error during iteration'' e of
                   None \<Rightarrow> Inr ib
                 | Some e' \<Rightarrow> Inl e'),
            wb\<lparr>stdin := rest,
               calls := calls wb @ [Improve ib feedback transcript],
               files := files wb
                 @ [(str_path rt [''output'', name, strftime_now rt (clock_reads wb),
                                  ''3_iteration.md''],
                     to_markdown (format_SubCategory_B (py311 rt)) new_b)],
               clock_reads := Suc (clock_reads wb)\<rparr>)"
  using assms
  by (simp add: handle_human_review_def console_input_def handle_iteration_def
      improve_insights_A_def improve_insights_B_def Let_def save_output_def output_path_def
      OutputManager_init_def iteration_failed_def split: option.splits)

theorem handle_human_review_single_pass_witness:
  "handle_human_review cpython311 (format_SubCategory_A True) iteration_saved_A
      (improve_insights_A cpython311 stub_A) PROPOSED_A one_task_A
      standup ''standup'' (fresh [''n'', ''add Bob as attendee'', ''n'', ''again''])
    = (Inr refined_A,
       \<lparr>stdin = [''n'', ''again''],
        calls = [Improve one_task_A ''add Bob as attendee'' standup],
        files = [(''output/standup/20240102_090000/3_iteration.md'',
                  to_markdown (format_SubCategory_A True) refined_A)],
        clock_reads = 1\<rparr>)
   \<and> handle_human_review cpython311 (format_SubCategory_B True) iteration_saved_B
      (improve_insights_B cpython311 (\<lambda>cs. Inr one_task_reply))
      PROPOSED_B one_task_B standup ''standup''
      (fresh [''n'', ''add Bob as attendee'', ''n'', ''again''])
    = (Inr one_task_B,
       \<lparr>stdin = [''n'', ''again''],
        calls = [Improve one_task_B ''add Bob as attendee'' standup],
        files = [(''output/standup/20240102_090000/3_iteration.md'',
                  to_markdown (format_SubCategory_B True) one_task_B)],
        clock_reads = 1\<rparr>)"
proof -
  have h1: "stdin (fresh [''n'', ''add Bob as attendee'', ''n'', ''again''] :: SubCategory_A world)
            = ''n'' # ''add Bob as attendee'' # [''n'', ''again'']"
    by (simp add: fresh_def)
  have h2: "stdin (fresh [''n'', ''add Bob as attendee'', ''n'', ''again''] :: SubCategory_B world)
            = ''n'' # ''add Bob as attendee'' # [''n'', ''again'']"
    by (simp add: fresh_def)
  have h3: "lower ''n'' \<noteq> ''y''" by (simp add: lower_def lower_char_def)
  have h4: "\<not> list_all (\<lambda>field. length (getattr one_task_A field) = 0) model_fields"
    using nonempty_one_task_A by simp
  have h5: "\<not> list_all (\<lambda>field. length (getattr one_task_B field) = 0) model_fields"
    using nonempty_one_task_B by simp
  have h6: "stub_A (calls (fresh [''n'', ''add Bob as attendee'', ''n'', ''again''])
              @ [Improve one_task_A ''add Bob as attendee'' standup]) = Inr refined_A"
    by (simp add: stub_A_def)
  have p: "str_path cpython311 [''output'', ''standup'', ''20240102_090000'', ''3_iteration.md'']
           = ''output/standup/20240102_090000/3_iteration.md''"
    by (simp add: cpython311_def)
  have r: "console_print cpython311
             (iteration_saved_A ''output/standup/20240102_090000/3_iteration.md'') = None"
    "console_print cpython311
             (iteration_saved_B ''output/standup/20240102_090000/3_iteration.md'') = None"
    by code_simp+
  from handle_human_review_single_pass
    [where wa = "fresh [''n'', ''add Bob as attendee'', ''n'', ''again'']"
       and wb = "fresh [''n'', ''add Bob as attendee'', ''n'', ''again'']"
       and approval = "''n''" and feedback = "''add Bob as attendee''"
       and rest = "[''n'', ''again'']" and ia = one_task_A and ib = one_task_B
       and backend_a = stub_A and backend_b = "\<lambda>cs. Inr one_task_reply"
       and new_a = refined_A and reply = one_task_reply and new_b = one_task_B
       and transcript = standup and name = "''standup''" and rt = cpython311,
     OF h1 h2 h3 h4 h5 h6 refl one_task_reply_valid]
  show ?thesis by (simp add: fresh_def standup_clock p r)
qed
section \<open>The markdown rendering\<close>

lemma join_Cons: "join sep (x # xs) = (if xs = [] then x else x @ sep @ join sep xs)"
  by (cases xs) simp_all

lemma join_append:
  "xs \<noteq> [] \<Longrightarrow> ys \<noteq> [] \<Longrightarrow> join sep (xs @ ys) = join sep xs @ sep @ join sep ys"
  by (induction xs) (auto simp: join_Cons)

lemma section_lines_nonempty: "section_lines fmt s \<noteq> []"
  by (cases s) (simp add: section_lines_def)

lemma join_sections:
  "join [NL] (x # concat (map (section_lines fmt) ss))
   = x @ concat (map (\<lambda>s. [NL] @ section_text fmt s) ss)"
proof (induction ss arbitrary: x rule: rev_induct)
  case Nil
  then show ?case by simp
next
  case (snoc s ss)
  have "join [NL] ((x # concat (map (section_lines fmt) ss)) @ section_lines fmt s)
        = join [NL] (x # concat (map (section_lines fmt) ss)) @ [NL] @ join [NL] (section_lines fmt s)"
    by (rule join_append) (simp_all add: section_lines_nonempty)
  with snoc show ?case by (simp add: section_text_def)
qed

lemma sections_getattr:
  "sections m = map (\<lambda>c. (heading c, getattr m c)) model_fields"
  by (simp add: sections_def model_fields_def)

lemma to_markdown_sections:
  "to_markdown fmt m = ''# Meeting Analysis Results'' @ [NL]
     @ concat (map (\<lambda>c. [NL] @ section_text fmt (heading c, getattr m c)) model_fields)"
  unfolding to_markdown_def
  using join_sections [of "''# Meeting Analysis Results'' @ [NL]" fmt "sections m"]
  by (simp add: sections_getattr comp_def)

lemma sublist_join:
  assumes "L \<noteq> []"
  shows "sublist (join sep L) (join sep (pre @ L @ post))"
proof -
  have a: "sublist (join sep L) (join sep (L @ post))"
  proof (cases "post = []")
    case True then show ?thesis by simp
  next
    case False
    then show ?thesis using assms by (simp add: join_append)
  qed
  show ?thesis
  proof (cases "pre = []")
    case True then show ?thesis using a by simp
  next
    case False
    have "L @ post \<noteq> []" using assms by simp
    with False have "join sep (pre @ L @ post) = join sep pre @ sep @ join sep (L @ post)"
      by (rule join_append)
    moreover have "sublist (join sep (L @ post)) (join sep pre @ sep @ join sep (L @ post))"
      by (metis append_assoc sublist_append_leftI)
    ultimately show ?thesis using a sublist_order.order_trans by metis
  qed
qed

lemma section_text_item:
  assumes "item \<in> set items"
  shows "sublist (join [NL] (item_lines fmt item)) (section_text fmt (title, items))"
proof -
  from assms obtain xs ys where i: "items = xs @ item # ys" by (meson split_list)
  have ne: "items \<noteq> []" using i by simp
  have "section_lines fmt (title, items)
        = ([''## '' @ title] @ concat (map (item_lines fmt) xs)) @ item_lines fmt item
          @ (concat (map (item_lines fmt) ys) @ [''''])"
    using ne by (simp add: section_lines_def i)
  moreover have "item_lines fmt item \<noteq> []" by (simp add: item_lines_def)
  ultimately show ?thesis
    unfolding section_text_def using sublist_join by metis
qed

lemma item_text:
  "join [NL] (item_lines fmt item)
   = ''- **'' @ point item @ ''**'' @ [NL] @ ''  - Quote: \"'' @ quote item @ ''\"'' @ [NL]
     @ ''  - Speaker: '' @ speaker item @ [NL] @ ''  - Category: '' @ fmt (subcategory item) @ [NL]"
  by (simp add: item_lines_def)

lemma sublist_mid: "sublist x (a @ x @ b)"
  by simp

lemma item_text_parts:
  "sublist (point item) (join [NL] (item_lines fmt item))"
  "sublist (quote item) (join [NL] (item_lines fmt item))"
  "sublist (speaker item) (join [NL] (item_lines fmt item))"
  "sublist (fmt (subcategory item)) (join [NL] (item_lines fmt item))"
proof -
  let ?t = "join [NL] (item_lines fmt item)"
  have "?t = ''- **'' @ point item @ (''**'' @ [NL] @ ''  - Quote: \"'' @ quote item @ ''\"'' @ [NL]
     @ ''  - Speaker: '' @ speaker item @ [NL] @ ''  - Category: '' @ fmt (subcategory item) @ [NL])"
    by (simp add: item_lines_def)
  then show "sublist (point item) ?t" by (metis sublist_appendI)
  have "?t = (''- **'' @ point item @ ''**'' @ [NL] @ ''  - Quote: \"'') @ quote item @ (''\"'' @ [NL]
     @ ''  - Speaker: '' @ speaker item @ [NL] @ ''  - Category: '' @ fmt (subcategory item) @ [NL])"
    by (simp add: item_lines_def)
  then show "sublist (quote item) ?t" by (metis sublist_appendI)
  have "?t = (''- **'' @ point item @ ''**'' @ [NL] @ ''  - Quote: \"'' @ quote item @ ''\"'' @ [NL]
     @ ''  - Speaker: '') @ speaker item @ ([NL] @ ''  - Category: '' @ fmt (subcategory item) @ [NL])"
    by (simp add: item_lines_def)
  then show "sublist (speaker item) ?t" by (metis sublist_appendI)
  have "?t = (''- **'' @ point item @ ''**'' @ [NL] @ ''  - Quote: \"'' @ quote item @ ''\"'' @ [NL]
     @ ''  - Speaker: '' @ speaker item @ [NL] @ ''  - Category: '') @ fmt (subcategory item) @ [NL]"
    by (simp add: item_lines_def)
  then show "sublist (fmt (subcategory item)) ?t" by (metis sublist_appendI)
qed

lemma section_text_heading:
  "prefix (''## '' @ title @ [NL]) (section_text fmt (title, items))"
proof -
  have "section_lines fmt (title, items) = [''## '' @ title] @ tl (section_lines fmt (title, items))"
    by (simp add: section_lines_def)
  moreover have "tl (section_lines fmt (title, items)) \<noteq> []"
    by (simp add: section_lines_def)
  ultimately have "section_text fmt (title, items)
     = (''## '' @ title) @ [NL] @ join [NL] (tl (section_lines fmt (title, items)))"
    unfolding section_text_def by (metis join.simps(2) join_append not_Cons_self2)
  then show ?thesis by (simp add: prefix_def)
qed

lemma section_text_empty:
  "section_text fmt (title, []) = ''## '' @ title @ [NL] @ ''No items found.'' @ [NL, NL]"
  by (simp add: section_text_def section_lines_def)

lemma section_text_parts:
  assumes "item \<in> set items"
  shows "sublist (point item) (section_text fmt (title, items))
       \<and> sublist (quote item) (section_text fmt (title, items))
       \<and> sublist (speaker item) (section_text fmt (title, items))
       \<and> sublist (fmt (subcategory item)) (section_text fmt (title, items))"
proof -
  note s = section_text_item [OF assms, of fmt title]
  have "sublist (point item) (section_text fmt (title, items))"
    using s item_text_parts(1) sublist_order.order_trans by metis
  moreover have "sublist (quote item) (section_text fmt (title, items))"
    using s item_text_parts(2) sublist_order.order_trans by metis
  moreover have "sublist (speaker item) (section_text fmt (title, items))"
    using s item_text_parts(3) sublist_order.order_trans by metis
  moreover have "sublist (fmt (subcategory item)) (section_text fmt (title, items))"
    using s item_text_parts(4) sublist_order.order_trans by metis
  ultimately show ?thesis by simp
qed

text \<open>
  Claim C5, as stated: the markdown contains the subcategory of every item verbatim.
  Under Python 3.11 it does not: the f-string of \<^verbatim>\<open>to_markdown\<close> renders the member
  \<^verbatim>\<open>ASSIGNED\<close>, whose value is \<^verbatim>\<open>assigned\<close>, as \<^verbatim>\<open>SubCategory.ASSIGNED\<close>, and the
  value occurs nowhere in the markdown of the insight with that one task.
\<close>

theorem to_markdown_py311_subcategory:
  "section_text (format_SubCategory_A True) (''Tasks'', tasks one_task_A)
   = ''## Tasks'' @ [NL] @ ''- **Finish API**'' @ [NL]
     @ ''  - Quote: \"I will finish the API by Friday.\"'' @ [NL]
     @ ''  - Speaker: Alice'' @ [NL]
     @ ''  - Category: SubCategory.ASSIGNED'' @ [NL, NL]
   \<and> SubCategory_A_value (subcategory (hd (tasks one_task_A))) = ''assigned''
   \<and> \<not> sublist ''assigned'' (to_markdown (format_SubCategory_A True) one_task_A)"
  by code_simp

text \<open>
  Claim C5, amended: the markdown of \<^verbatim>\<open>to_markdown\<close> is the title line followed by
  the seven sections in order, each after a line feed. The section of a sequence starts
  with its heading line; when the sequence is empty it is the heading line followed by
  the line \<^verbatim>\<open>No items found.\<close> and two line feeds; and it contains, for every item of
  the sequence, the point, the quote and the speaker as substrings, and the
  subcategory as the interpreter formats the member: its value up to Python 3.10, and
  \<^verbatim>\<open>SubCategory.\<close> followed by the member's name from Python 3.11 on. In both variants.
\<close>

theorem to_markdown_renders_items:
  "to_markdown (format_SubCategory_A py) ma = ''# Meeting Analysis Results'' @ [NL]
     @ concat (map (\<lambda>c. [NL] @ section_text (format_SubCategory_A py) (heading c, getattr ma c))
                 model_fields)
   \<and> to_markdown (format_SubCategory_B py) mb = ''# Meeting Analysis Results'' @ [NL]
     @ concat (map (\<lambda>c. [NL] @ section_text (format_SubCategory_B py) (heading c, getattr mb c))
                 model_fields)
   \<and> (\<forall>c. prefix (''## '' @ heading c @ [NL])
               (section_text (format_SubCategory_A py) (heading c, getattr ma c))
        \<and> prefix (''## '' @ heading c @ [NL])
               (section_text (format_SubCategory_B py) (heading c, getattr mb c))
        \<and> (getattr ma c = [] \<longrightarrow>
             section_text (format_SubCategory_A py) (heading c, getattr ma c)
               = ''## '' @ heading c @ [NL] @ ''No items found.'' @ [NL, NL])
        \<and> (getattr mb c = [] \<longrightarrow>
             section_text (format_SubCategory_B py) (heading c, getattr mb c)
               = ''## '' @ heading c @ [NL] @ ''No items found.'' @ [NL, NL])
        \<and> (\<forall>item\<in>set (getattr ma c).
             sublist (point item) (section_text (format_SubCategory_A py) (heading c, getattr ma c))
           \<and> sublist (quote item) (section_text (format_SubCategory_A py) (heading c, getattr ma c))
           \<and> sublist (speaker item) (section_text (format_SubCategory_A py) (heading c, getattr ma c))
           \<and> sublist (if py then ''SubCategory.'' @ SubCategory_A_name (subcategory item)
                       else SubCategory_A_value (subcategory item))
                (section_text (format_SubCategory_A py) (heading c, getattr ma c)))
        \<and> (\<forall>item\<in>set (getattr mb c).
             sublist (point item) (section_text (format_SubCategory_B py) (heading c, getattr mb c))
           \<and> sublist (quote item) (section_text (format_SubCategory_B py) (heading c, getattr mb c))
           \<and> sublist (speaker item) (section_text (format_SubCategory_B py) (heading c, getattr mb c))
           \<and> sublist (if py then ''SubCategory.'' @ SubCategory_B_name (subcategory item)
                       else SubCategory_B_value (subcategory item))
                (section_text (format_SubCategory_B py) (heading c, getattr mb c))))"
proof (intro conjI allI impI ballI)
  show "to_markdown (format_SubCategory_A py) ma = ''# Meeting Analysis Results'' @ [NL]
     @ concat (map (\<lambda>c. [NL] @ section_text (format_SubCategory_A py) (heading c, getattr ma c))
                 model_fields)"
    by (rule to_markdown_sections)
  show "to_markdown (format_SubCategory_B py) mb = ''# Meeting Analysis Results'' @ [NL]
     @ concat (map (\<lambda>c. [NL] @ section_text (format_SubCategory_B py) (heading c, getattr mb c))
                 model_fields)"
    by (rule to_markdown_sections)
next
  fix c
  show "prefix (''## '' @ heading c @ [NL])
          (section_text (format_SubCategory_A py) (heading c, getattr ma c))"
    by (rule section_text_heading)
  show "prefix (''## '' @ heading c @ [NL])
          (section_text (format_SubCategory_B py) (heading c, getattr mb c))"
    by (rule section_text_heading)
next
  fix c assume "getattr ma c = []"
  then show "section_text (format_SubCategory_A py) (heading c, getattr ma c)
               = ''## '' @ heading c @ [NL] @ ''No items found.'' @ [NL, NL]"
    by (simp add: section_text_empty)
next
  fix c assume "getattr mb c = []"
  then show "section_text (format_SubCategory_B py) (heading c, getattr mb c)
               = ''## '' @ heading c @ [NL] @ ''No items found.'' @ [NL, NL]"
    by (simp add: section_text_empty)
next
  fix c item assume i: "item \<in> set (getattr ma c)"
  note s = section_text_parts [OF i, of "format_SubCategory_A py" "heading c"]
  show "sublist (point item) (section_text (format_SubCategory_A py) (heading c, getattr ma c))"
    using s by simp
  show "sublist (quote item) (section_text (format_SubCategory_A py) (heading c, getattr ma c))"
    using s by simp
  show "sublist (speaker item) (section_text (format_SubCategory_A py) (heading c, getattr ma c))"
    using s by simp
  show "sublist (if py then ''SubCategory.'' @ SubCategory_A_name (subcategory item)
                 else SubCategory_A_value (subcategory item))
          (section_text (format_SubCategory_A py) (heading c, getattr ma c))"
    using s unfolding format_SubCategory_A_def by simp
next
  fix c item assume i: "item \<in> set (getattr mb c)"
  note s = section_text_parts [OF i, of "format_SubCategory_B py" "heading c"]
  show "sublist (point item) (section_text (format_SubCategory_B py) (heading c, getattr mb c))"
    using s by simp
  show "sublist (quote item) (section_text (format_SubCategory_B py) (heading c, getattr mb c))"
    using s by simp
  show "sublist (speaker item) (section_text (format_SubCategory_B py) (heading c, getattr mb c))"
    using s by simp
  show "sublist (if py then ''SubCategory.'' @ SubCategory_B_name (subcategory item)
                 else SubCategory_B_value (subcategory item))
          (section_text (format_SubCategory_B py) (heading c, getattr mb c))"
    using s unfolding format_SubCategory_B_def by simp
qed

theorem to_markdown_renders_items_witness:
  "prefix (''## Tasks'' @ [NL]) (section_text (format_SubCategory_A False) (''Tasks'', tasks one_task_A))
   \<and> sublist ''Finish API'' (section_text (format_SubCategory_A False) (''Tasks'', tasks one_task_A))
   \<and> sublist ''I will finish the API by Friday.''
         (section_text (format_SubCategory_A False) (''Tasks'', tasks one_task_A))
   \<and> sublist ''Alice'' (section_text (format_SubCategory_A False) (''Tasks'', tasks one_task_A))
   \<and> sublist ''assigned'' (section_text (format_SubCategory_A False) (''Tasks'', tasks one_task_A))
   \<and> section_text (format_SubCategory_A False) (''Decisions'', decisions one_task_A)
       = ''## Decisions'' @ [NL] @ ''No items found.'' @ [NL, NL]
   \<and> sublist ''SubCategory.PROPOSED''
         (section_text (format_SubCategory_B True) (''Tasks'', tasks one_task_B))"
proof -
  note t = to_markdown_renders_items [of False one_task_A one_task_B]
  note u = to_markdown_renders_items [of True one_task_A one_task_B]
  note tasks = t [THEN conjunct2, THEN conjunct2, rule_format, of Tasks]
  note decs = t [THEN conjunct2, THEN conjunct2, rule_format, of Decisions]
  note tasks_b = u [THEN conjunct2, THEN conjunct2, rule_format, of Tasks]
  have i: "\<lparr>point = ''Finish API'', quote = ''I will finish the API by Friday.'',
            speaker = ''Alice'', subcategory = ASSIGNED_A\<rparr> \<in> set (getattr one_task_A Tasks)"
    by (simp add: one_task_A_def)
  have j: "\<lparr>point = ''Finish API'', quote = ''I will finish the API by Friday.'',
            speaker = ''Alice'', subcategory = PROPOSED_B\<rparr> \<in> set (getattr one_task_B Tasks)"
    by (simp add: one_task_B_def)
  have d: "getattr one_task_A Decisions = []"
    by (simp add: one_task_A_def MeetingInsight_empty_def)
  from tasks [THEN conjunct1]
    tasks [THEN conjunct2, THEN conjunct2, THEN conjunct2, THEN conjunct2, THEN conjunct1,
           rule_format, OF i]
    decs [THEN conjunct2, THEN conjunct2, THEN conjunct1, rule_format, OF d]
    tasks_b [THEN conjunct2, THEN conjunct2, THEN conjunct2, THEN conjunct2, THEN conjunct2,
             rule_format, OF j]
  show ?thesis by simp
qed
section \<open>The research assistant\<close>



lemma untitled_run:
  "search_agent_run untitled_agent ''what is isabelle'' (rfresh [])
   = (Inr \<lparr>research_title = '''', research_main = ''Isabelle is a proof assistant.'',
           research_bullets = ''- generic''\<rparr>,
      \<lparr>r_stdin = [], r_out = [PrintSearch 1 ''isabelle prover''],
       runs = [''what is isabelle''], searches = [(''isabelle prover'', 3)], r_files = []\<rparr>)"
  by (simp add: search_agent_run_def untitled_agent_def untitled_answer_def rfresh_def
      get_search_def Let_def)

text \<open>
  Claim C9, as stated: no successful run produces a \<^verbatim>\<open>ResearchResult\<close> with an empty
  \<^verbatim>\<open>research_title\<close>. The field is declared \<^verbatim>\<open>str\<close> with a description only, so an
  answer whose title is the empty string passes: this run succeeds, after one search,
  with an empty title.
\<close>

theorem search_agent_run_empty_title:
  "fst (search_agent_run untitled_agent ''what is isabelle'' (rfresh []))
   = Inr \<lparr>research_title = '''', research_main = ''Isabelle is a proof assistant.'',
          research_bullets = ''- generic''\<rparr>"
  by (simp add: untitled_run)

text \<open>
  Claim C9, amended: the schema enforces that the three fields are present and are
  strings. Every \<^verbatim>\<open>ResearchResult\<close> of a successful run carries as
  \<^verbatim>\<open>research_title\<close> (and as body and bullets) the string that the final answer gives
  under that key; the string may be empty.
\<close>

theorem search_agent_run_title:
  assumes "search_agent_run agent query w = (Inr result, w')"
  shows "\<exists>kvs. answer (agent (runs w @ [query])) = Inr (JObj kvs)
           \<and> map_of kvs ''research_title'' = Some (JStr (research_title result))
           \<and> map_of kvs ''research_main'' = Some (JStr (research_main result))
           \<and> map_of kvs ''research_bullets'' = Some (JStr (research_bullets result))"
proof -
  from assms obtain j where a: "answer (agent (runs w @ [query])) = Inr j"
    and v: "ResearchResult_validate j = Inr result"
    by (auto simp: search_agent_run_def Let_def split: sum.splits)
  from v obtain kvs where j: "j = JObj kvs" by (cases j) simp_all
  from v j show ?thesis
    using a by (auto split: option.splits json.splits)
qed

theorem search_agent_run_title_witness:
  "\<exists>kvs. answer (untitled_agent (runs (rfresh []) @ [''what is isabelle''])) = Inr (JObj kvs)
        \<and> map_of kvs ''research_title'' = Some (JStr '''')
        \<and> map_of kvs ''research_main'' = Some (JStr ''Isabelle is a proof assistant.'')"
  using search_agent_run_title [OF untitled_run]
  by auto



text \<open>
  Two ways for the loop to meet an exception. A query that holds a closing tag: the
  message \<^verbatim>\<open>Researching\<close> raises before the agent is run, and so does the message of
  the handler, which ends \<^verbatim>\<open>main\<close>. An answer whose title holds a slash: the write
  raises, inside the \<^verbatim>\<open>try\<close> block.
\<close>

lemma research_loop_closing_tag:
  "research_loop cpython311 untitled_agent (rfresh [''what does [/INST] mean?''])
   = (Inl (MarkupError ''closing tag '[/INST]' at position 41 doesn't match any open tag''),
      \<lparr>r_stdin = [], r_out = [Prompt query_prompt], runs = [], searches = [], r_files = []\<rparr>)"
  by code_simp

lemma save_results_slash:
  "save_results cpython311
     \<lparr>research_title = ''TCP/IP'', research_main = ''A protocol suite.'',
      research_bullets = ''- layered''\<rparr> (rfresh [])
   = (Some (OSError (''[Errno 2] No such file or directory: 'research_output/tcp/ip.md''
                     @ [QUOTE])),
      rfresh [])"
  by code_simp
section \<open>Extraction in variant B against the specification\<close>

lemma map_of_dict_set: "map_of (dict_set k v kvs) = (map_of kvs)(k \<mapsto> v)"
  by (induction kvs) (auto simp: fun_eq_iff)

lemma dict_set_absent: "map_of kvs k = None \<Longrightarrow> dict_set k v kvs = kvs @ [(k, v)]"
  by (induction kvs) (auto split: if_splits)

lemma absent_iff: "k \<notin> fst ` set kvs \<longleftrightarrow> map_of kvs k = None"
  by (simp add: map_of_eq_None_iff)

lemma field_name_inj: "field_name c = field_name c' \<longleftrightarrow> c = c'"
  by (cases c; cases c') simp_all

lemma set_default_Inr: "set_default (default_subcategory c) x = Inr y \<Longrightarrow> y = spec_item_default c x"
  by (cases x) (auto simp: spec_item_default_def dict_set_absent absent_iff split: if_splits)

lemma set_default_Inl:
  "set_default (default_subcategory c) x = Inl e \<Longrightarrow>
   \<exists>e'. validate_item_B (spec_item_default c x) = Inl e'"
  by (cases x) (auto simp: spec_item_default_def split: if_splits)

lemma mapM_set_default_Inr:
  "mapM (set_default (default_subcategory c)) xs = Inr ys \<Longrightarrow> ys = map (spec_item_default c) xs"
  by (induction xs arbitrary: ys) (auto split: sum.splits dest: set_default_Inr)

lemma mapM_set_default_Inl:
  "mapM (set_default (default_subcategory c)) xs = Inl e \<Longrightarrow>
   \<exists>e'. mapM validate_item_B (map (spec_item_default c) xs) = Inl e'"
  by (induction xs) (auto split: sum.splits dest: set_default_Inl)

lemma default_items_Inr:
  "default_items (default_subcategory c) (entry kvs c) = Inr v' \<Longrightarrow> v' = spec_category_default c (map_of kvs (field_name c))"
  by (cases "map_of kvs (field_name c)"; cases "entry kvs c")
     (auto simp: entry_def spec_category_default_def split: sum.splits dest: mapM_set_default_Inr)

lemma default_items_Inl:
  "default_items (default_subcategory c) (entry kvs c) = Inl e \<Longrightarrow>
   \<exists>e'. validate_items_B (Some (spec_category_default c (map_of kvs (field_name c)))) = Inl e'"
  by (cases "map_of kvs (field_name c)"; cases "entry kvs c")
     (auto simp: entry_def spec_category_default_def split: sum.splits dest: mapM_set_default_Inl)

lemma add_defaults_step:
  "add_defaults (c # cs) kvs =
     (case default_items (default_subcategory c) (entry kvs c) of
        Inl e \<Rightarrow> Inl e
      | Inr v' \<Rightarrow> add_defaults cs (dict_set (field_name c) v'
                     (if map_of kvs (field_name c) = None
                      then dict_set (field_name c) (JArr []) kvs else kvs)))"
  by (auto simp: Let_def absent_iff map_of_dict_set entry_def split: option.splits)

lemma add_defaults_Inr:
  "distinct cs \<Longrightarrow> add_defaults cs kvs = Inr kvs' \<Longrightarrow>
   (\<forall>c\<in>set cs. map_of kvs' (field_name c) = Some (spec_category_default c (map_of kvs (field_name c))))
   \<and> (\<forall>k. k \<notin> field_name ` set cs \<longrightarrow> map_of kvs' k = map_of kvs k)"
proof (induction cs arbitrary: kvs)
  case Nil
  then show ?case by simp
next
  case (Cons c cs)
  let ?kvs1 = "if map_of kvs (field_name c) = None
               then dict_set (field_name c) (JArr []) kvs else kvs"
  from Cons.prems(2) obtain v' where
    d: "default_items (default_subcategory c) (entry kvs c) = Inr v'"
    and r: "add_defaults cs (dict_set (field_name c) v' ?kvs1) = Inr kvs'"
    unfolding add_defaults_step by (auto split: sum.splits)
  let ?kvs2 = "dict_set (field_name c) v' ?kvs1"
  have v': "v' = spec_category_default c (map_of kvs (field_name c))" using d by (rule default_items_Inr)
  have m2: "map_of ?kvs2 k = (if k = field_name c then Some v' else map_of kvs k)" for k
    by (simp add: map_of_dict_set)
  from Cons.prems(1) have dc: "distinct cs" and nc: "c \<notin> set cs" by simp_all
  from Cons.IH [OF dc r]
  have ih1: "\<forall>c'\<in>set cs. map_of kvs' (field_name c') = Some (spec_category_default c' (map_of ?kvs2 (field_name c')))"
    and ih2: "\<forall>k. k \<notin> field_name ` set cs \<longrightarrow> map_of kvs' k = map_of ?kvs2 k"
    by blast+
  have a: "map_of kvs' (field_name c) = Some (spec_category_default c (map_of kvs (field_name c)))"
  proof -
    have "field_name c \<notin> field_name ` set cs" using nc by (auto simp: field_name_inj)
    with ih2 have "map_of kvs' (field_name c) = map_of ?kvs2 (field_name c)" by blast
    then show ?thesis using m2 v' by simp
  qed
  have b: "map_of kvs' (field_name c') = Some (spec_category_default c' (map_of kvs (field_name c')))" if "c' \<in> set cs" for c'
  proof -
    from that nc have "c' \<noteq> c" by blast
    then have "map_of ?kvs2 (field_name c') = map_of kvs (field_name c')"
      using m2 by (simp add: field_name_inj)
    with ih1 that show ?thesis by simp
  qed
  have c: "map_of kvs' k = map_of kvs k" if "k \<notin> field_name ` set (c # cs)" for k
  proof -
    from that have "k \<notin> field_name ` set cs" and "k \<noteq> field_name c" by auto
    with ih2 m2 show ?thesis by simp
  qed
  from a b c show ?case by auto
qed

lemma add_defaults_Inl:
  "distinct cs \<Longrightarrow> add_defaults cs kvs = Inl e \<Longrightarrow>
   \<exists>c\<in>set cs. \<exists>e'. validate_items_B (Some (spec_category_default c (map_of kvs (field_name c)))) = Inl e'"
proof (induction cs arbitrary: kvs)
  case Nil
  then show ?case by simp
next
  case (Cons c cs)
  let ?kvs1 = "if map_of kvs (field_name c) = None
               then dict_set (field_name c) (JArr []) kvs else kvs"
  show ?case
  proof (cases "default_items (default_subcategory c) (entry kvs c)")
    case (Inl e')
    then show ?thesis using default_items_Inl by fastforce
  next
    case (Inr v')
    let ?kvs2 = "dict_set (field_name c) v' ?kvs1"
    from Cons.prems(2) Inr have r: "add_defaults cs ?kvs2 = Inl e"
      unfolding add_defaults_step by simp
    from Cons.prems(1) have dc: "distinct cs" and nc: "c \<notin> set cs" by simp_all
    from Cons.IH [OF dc r] obtain c' e' where c': "c' \<in> set cs"
      and f: "validate_items_B (Some (spec_category_default c' (map_of ?kvs2 (field_name c')))) = Inl e'" by blast
    from c' nc have "c' \<noteq> c" by blast
    then have "map_of ?kvs2 (field_name c') = map_of kvs (field_name c')"
      by (simp add: map_of_dict_set field_name_inj)
    with f c' show ?thesis by auto
  qed
qed

lemma validate_fields_cong:
  "\<forall>c\<in>set cs. validate_items_B (map_of kvs1 (field_name c)) = validate_items_B (map_of kvs2 (field_name c))
   \<Longrightarrow> validate_fields_B cs kvs1 m = validate_fields_B cs kvs2 m"
  by (induction cs arbitrary: m) (auto split: sum.splits)

lemma validate_fields_Inl:
  "c \<in> set cs \<Longrightarrow> validate_items_B (map_of kvs (field_name c)) = Inl e \<Longrightarrow>
   \<exists>e'. validate_fields_B cs kvs m = Inl e'"
  by (induction cs arbitrary: m) (auto split: sum.splits)

lemma validate_fields_Inr:
  "validate_fields_B cs kvs m = Inr m' \<Longrightarrow> c \<in> set cs \<Longrightarrow>
   \<exists>items. validate_items_B (map_of kvs (field_name c)) = Inr items"
  by (induction cs arbitrary: m) (auto split: sum.splits)

lemma validate_item_spec:
  "validate_item_B x = Inr item \<Longrightarrow> spec_item_default c x = x"
  by (cases x) (auto simp: spec_item_default_def split: option.splits json.splits)

lemma mapM_validate_spec:
  "mapM validate_item_B xs = Inr items \<Longrightarrow> map (spec_item_default c) xs = xs"
  by (induction xs arbitrary: items) (auto split: sum.splits dest: validate_item_spec)

lemma validate_items_spec:
  "validate_items_B (map_of kvs (field_name c)) = Inr items \<Longrightarrow>
   validate_items_B (Some (spec_category_default c (map_of kvs (field_name c)))) = Inr items"
proof (cases "map_of kvs (field_name c)")
  case None
  assume "validate_items_B (map_of kvs (field_name c)) = Inr items"
  with None show ?thesis by (simp add: spec_category_default_def)
next
  case (Some v)
  assume a: "validate_items_B (map_of kvs (field_name c)) = Inr items"
  with Some obtain xs where v: "v = JArr xs" by (cases v) simp_all
  with a Some have "mapM validate_item_B xs = Inr items" by simp
  with Some v show ?thesis
    by (simp add: spec_category_default_def mapM_validate_spec)
qed

lemma map_of_substituted:
  "map_of (substituted kvs) (field_name c) = Some (spec_category_default c (map_of kvs (field_name c)))"
  by (cases c) (simp_all add: substituted_def model_fields_def)

lemma distinct_model_fields: "distinct model_fields"
  by (simp add: model_fields_def)

lemma all_model_fields: "c \<in> set model_fields"
  by (cases c) (simp_all add: model_fields_def)

lemma valid_raw_substituted:
  assumes "validate_fields_B model_fields kvs m0 = Inr m"
  shows "validate_fields_B model_fields (substituted kvs) m0 = Inr m"
proof -
  have "\<forall>c\<in>set model_fields. validate_items_B (map_of (substituted kvs) (field_name c))
          = validate_items_B (map_of kvs (field_name c))"
  proof
    fix c assume "c \<in> set model_fields"
    with validate_fields_Inr [OF assms] obtain items
      where "validate_items_B (map_of kvs (field_name c)) = Inr items" by blast
    then show "validate_items_B (map_of (substituted kvs) (field_name c))
          = validate_items_B (map_of kvs (field_name c))"
      by (simp add: map_of_substituted validate_items_spec)
  qed
  from validate_fields_cong [OF this] assms show ?thesis by simp
qed

lemma code_vs_substituted:
  "(case add_defaults model_fields kvs of
      Inl e \<Rightarrow> MeetingInsight_empty
    | Inr r \<Rightarrow> (case validate_fields_B model_fields r MeetingInsight_empty of
                  Inl e \<Rightarrow> MeetingInsight_empty | Inr m \<Rightarrow> m))
   = (case validate_fields_B model_fields (substituted kvs) MeetingInsight_empty of
        Inl e \<Rightarrow> MeetingInsight_empty | Inr m \<Rightarrow> m)"
proof (cases "add_defaults model_fields kvs")
  case (Inl e)
  from add_defaults_Inl [OF distinct_model_fields Inl] obtain c e'
    where "validate_items_B (Some (spec_category_default c (map_of kvs (field_name c)))) = Inl e'" by blast
  then have "validate_items_B (map_of (substituted kvs) (field_name c)) = Inl e'"
    by (simp add: map_of_substituted)
  from validate_fields_Inl [OF all_model_fields this, of MeetingInsight_empty] obtain e''
    where "validate_fields_B model_fields (substituted kvs) MeetingInsight_empty = Inl e''"
    by blast
  with Inl show ?thesis by simp
next
  case (Inr r)
  from add_defaults_Inr [OF distinct_model_fields Inr]
  have "\<forall>c\<in>set model_fields. validate_items_B (map_of r (field_name c))
          = validate_items_B (map_of (substituted kvs) (field_name c))"
    by (simp add: map_of_substituted)
  from validate_fields_cong [OF this] Inr show ?thesis by simp
qed

lemma analyze_reply_spec:
  "(case analyze_reply_B reply of Inl e \<Rightarrow> MeetingInsight_empty | Inr m \<Rightarrow> m) = spec_extract_B reply"
proof (cases reply)
  case (Inl e)
  then show ?thesis by (simp add: analyze_reply_B_def spec_extract_B_def)
next
  case (Inr j)
  show ?thesis
  proof (cases j)
    case (JObj kvs)
    let ?E = "MeetingInsight_empty :: SubCategory_B MeetingInsight"
    have s: "spec_substitute_defaults (JObj kvs) = JObj (substituted kvs)"
      by (simp add: spec_substitute_defaults_def substituted_def)
    have l: "(case analyze_reply_B (Inr (JObj kvs)) of Inl e \<Rightarrow> ?E | Inr m \<Rightarrow> m)
             = (case validate_fields_B model_fields (substituted kvs) ?E of
                  Inl e \<Rightarrow> ?E | Inr m \<Rightarrow> m)"
      unfolding code_vs_substituted [of kvs, symmetric]
      by (simp add: analyze_reply_B_def split: sum.splits)
    have r: "spec_extract_B (Inr (JObj kvs))
             = (case validate_fields_B model_fields kvs ?E of
                  Inr m \<Rightarrow> m
                | Inl e \<Rightarrow> (case validate_fields_B model_fields (substituted kvs) ?E of
                              Inl e \<Rightarrow> ?E | Inr m \<Rightarrow> m))"
      by (simp add: spec_extract_B_def s split: sum.splits)
    show ?thesis
    proof (cases "validate_fields_B model_fields kvs ?E")
      case (Inl e)
      with l r \<open>reply = Inr j\<close> JObj show ?thesis by simp
    next
      case (Inr m)
      from valid_raw_substituted [OF Inr] Inr l r \<open>reply = Inr j\<close> JObj
      show ?thesis by simp
    qed
  qed (simp_all add: Inr analyze_reply_B_def spec_extract_B_def spec_substitute_defaults_def)
qed

lemma untagged_extract: "spec_extract_B (Inr untagged_reply) = untagged_insight"
  by (simp add: spec_extract_B_def untagged_reply_def untagged_insight_def model_fields_def
      spec_substitute_defaults_def spec_category_default_def spec_item_default_def
      SubCategory_B_of_def SubCategory_B_members_def MeetingInsight_empty_def)

text \<open>
  On a reply that fails to parse or validate, variant A raises and the stage is
  aborted: \<^verbatim>\<open>process_transcript\<close> ends in the exception (or in the one raised by the
  print of the handler), with nothing written.
\<close>

lemma process_transcript_A_reply_failure:
  assumes "strip raw \<noteq> []" and "backend_a (calls wa @ [Analyze (strip raw)]) = Inl e"
  shows "process_transcript_A rt backend_a auto_mode name raw wa
         = (Inl (print_and_raise rt ''Error in analyze_transcript'' e),
            wa\<lparr>calls := calls wa @ [Analyze (strip raw)],
               clock_reads := Suc (clock_reads wa)\<rparr>)"
  using assms
  by (simp add: analyze_transcript_A_def process_transcript_A_def OutputManager_init_def Let_def)

text \<open>
  Variant B returns, for every reply for which the message of its handler renders, what
  the specification describes (\<open>spec_extract_B\<close>): the validated reply, or else the
  reply validated once more after default sub-tags have been substituted for items
  without a subcategory and empty sequences for missing categories, or else the empty
  result; and \<^verbatim>\<open>process_transcript\<close> returns it, when the row of the progress display
  that names the file renders.
\<close>

lemma analyze_transcript_B_rendered:
  assumes "\<And>e. analyze_reply_B (backend_b (calls wb @ [Analyze transcript])) = Inl e
             \<Longrightarrow> print_error rt ''Error in analyze_transcript'' e = None"
  shows "analyze_transcript_B rt backend_b transcript wb
         = (Inr (spec_extract_B (backend_b (calls wb @ [Analyze transcript]))),
            wb\<lparr>calls := calls wb @ [Analyze transcript]\<rparr>)"
    and "progress_add_task rt (''[cyan]Reading '' @ file_name @ ''...'') = None \<Longrightarrow>
         process_transcript_B rt backend_b file_name transcript wb
         = (Inr (spec_extract_B (backend_b (calls wb @ [Analyze transcript]))),
            wb\<lparr>calls := calls wb @ [Analyze transcript],
               clock_reads := Suc (clock_reads wb)\<rparr>)"
proof -
  show a: "analyze_transcript_B rt backend_b transcript wb
         = (Inr (spec_extract_B (backend_b (calls wb @ [Analyze transcript]))),
            wb\<lparr>calls := calls wb @ [Analyze transcript]\<rparr>)"
    using analyze_reply_spec [of "backend_b (calls wb @ [Analyze transcript])"] assms
    by (cases "analyze_reply_B (backend_b (calls wb @ [Analyze transcript]))")
       (simp_all add: analyze_transcript_B_def Let_def)
  have b: "analyze_transcript_B rt backend_b transcript (wb\<lparr>clock_reads := Suc (clock_reads wb)\<rparr>)
         = (Inr (spec_extract_B (backend_b (calls wb @ [Analyze transcript]))),
            wb\<lparr>calls := calls wb @ [Analyze transcript],
               clock_reads := Suc (clock_reads wb)\<rparr>)"
    using analyze_reply_spec [of "backend_b (calls wb @ [Analyze transcript])"] assms
    by (cases "analyze_reply_B (backend_b (calls wb @ [Analyze transcript]))")
       (simp_all add: analyze_transcript_B_def Let_def)
  assume "progress_add_task rt (''[cyan]Reading '' @ file_name @ ''...'') = None"
  with b show "process_transcript_B rt backend_b file_name transcript wb
         = (Inr (spec_extract_B (backend_b (calls wb @ [Analyze transcript]))),
            wb\<lparr>calls := calls wb @ [Analyze transcript],
               clock_reads := Suc (clock_reads wb)\<rparr>)"
    by (simp add: process_transcript_B_def OutputManager_init_def)
qed

lemma untagged_reply_run:
  "process_transcript_B cpython311 (\<lambda>cs. Inr untagged_reply) ''standup.md'' standup (fresh [])
   = (Inr untagged_insight,
      \<lparr>stdin = [], calls = [Analyze standup], files = [], clock_reads = 1\<rparr>)"
  by code_simp

text \<open>
  Claim C7: a reply that fails validation is, in variant B, not fatal. It is not when
  the message of the handler renders (\<open>analyze_transcript_B_rendered\<close>). The handler
  prints the text of the exception as console markup, though, and the text of a
  \<^verbatim>\<open>ValidationError\<close> quotes the reply: for a reply whose task has the subcategory
  \<^verbatim>\<open>[/INST]\<close>, validation fails after the defaults, the print of the handler raises
  \<^verbatim>\<open>MarkupError\<close>, \<^verbatim>\<open>analyze_transcript\<close> ends in that exception instead of returning
  the empty result, and \<^verbatim>\<open>process_transcript\<close>, whose handler prints it and raises
  again, ends in an exception too.
\<close>

theorem analyze_transcript_B_closing_tag:
  "analyze_transcript_B cpython311 (\<lambda>cs. Inr leaked_token_reply) standup (fresh [])
   = (Inl (MarkupError ''closing tag '[/INST]' at position 404 doesn't match any open tag''),
      \<lparr>stdin = [], calls = [Analyze standup], files = [], clock_reads = 0\<rparr>)
   \<and> process_transcript_B cpython311 (\<lambda>cs. Inr leaked_token_reply) ''standup.md'' standup
       (fresh [])
   = (Inl (MarkupError ''closing tag '[/INST]' at position 41 doesn't match any open tag''),
      \<lparr>stdin = [], calls = [Analyze standup], files = [], clock_reads = 1\<rparr>)"
  by code_simp

section \<open>Sub-tags and sequences\<close>



















end
